theory Spec2Isabelle
  imports Main "HOL-Library.Char_ord" "HOL-Library.List_Lexorder"
begin

section \<open>JSON values\<close>

text \<open>
  \<open>Pipeline.config\<close> and \<open>DatasetVersion.schema\<close> are \<open>JSONField\<close>s: Python values built
  from \<open>None\<close>, booleans, integers, strings, lists and dicts with string keys. A dict
  keeps its insertion order, so it is an association list; Python's dicts have no
  repeated key, which \<open>wf_json\<close> states. Floats are left out.
\<close>

datatype json =
    JNull
  | JBool bool
  | JInt int
  | JStr string
  | JList "json list"
  | JObj "(string \<times> json) list"

fun wf_json :: "json \<Rightarrow> bool" where
  "wf_json (JList xs) = list_all wf_json xs"
| "wf_json (JObj kvs) = (distinct (map fst kvs) \<and> list_all (\<lambda>kv. wf_json (snd kv)) kvs)"
| "wf_json _ = True"

text \<open>Python's truth value of a JSON value (\<open>if self.schema\<close>, \<open>not query_sql\<close>).\<close>

fun truthy :: "json \<Rightarrow> bool" where
  "truthy JNull = False"
| "truthy (JBool b) = b"
| "truthy (JInt i) = (i \<noteq> 0)"
| "truthy (JStr s) = (s \<noteq> [])"
| "truthy (JList xs) = (xs \<noteq> [])"
| "truthy (JObj kvs) = (kvs \<noteq> [])"

text \<open>
  Python's \<open>==\<close> on JSON values: \<open>True == 1\<close> and \<open>False == 0\<close> hold, lists compare
  element by element, and dicts compare as mappings, whatever the order of their keys.
\<close>

fun py_eq :: "json \<Rightarrow> json \<Rightarrow> bool" where
  "py_eq JNull JNull = True"
| "py_eq (JBool a) (JBool b) = (a = b)"
| "py_eq (JBool a) (JInt j) = (j = (if a then 1 else 0))"
| "py_eq (JInt i) (JBool b) = (i = (if b then 1 else 0))"
| "py_eq (JInt i) (JInt j) = (i = j)"
| "py_eq (JStr s) (JStr t) = (s = t)"
| "py_eq (JList []) (JList ys) = (ys = [])"
| "py_eq (JList (x # xs)) (JList ys) =
     (case ys of [] \<Rightarrow> False | y # ys' \<Rightarrow> py_eq x y \<and> py_eq (JList xs) (JList ys'))"
| "py_eq (JObj kvs) (JObj kws) =
     (length kvs = length kws \<and>
      list_all (\<lambda>kv. list_ex (\<lambda>kw. fst kw = fst kv \<and> py_eq (snd kv) (snd kw)) kws) kvs)"
| "py_eq _ _ = False"

text \<open>
  Two values have the same content when they differ at most in the order of the keys of
  their dicts: same type and value at every scalar, same elements in the same order in
  every list, same keys with the same content below each in every dict. Unlike
  \<open>py_eq\<close> it tells \<open>True\<close> from \<open>1\<close>.
\<close>

fun same_content :: "json \<Rightarrow> json \<Rightarrow> bool" where
  "same_content JNull JNull = True"
| "same_content (JBool a) (JBool b) = (a = b)"
| "same_content (JInt i) (JInt j) = (i = j)"
| "same_content (JStr s) (JStr t) = (s = t)"
| "same_content (JList []) (JList ys) = (ys = [])"
| "same_content (JList (x # xs)) (JList ys) =
     (case ys of [] \<Rightarrow> False | y # ys' \<Rightarrow> same_content x y \<and> same_content (JList xs) (JList ys'))"
| "same_content (JObj kvs) (JObj kws) =
     (length kvs = length kws \<and>
      list_all (\<lambda>kv. list_ex (\<lambda>kw. fst kw = fst kv \<and> same_content (snd kv) (snd kw)) kws) kvs)"
| "same_content _ _ = False"

subsection \<open>\<open>json.dumps(value, sort_keys=True)\<close>\<close>

text \<open>
  The text Python's \<open>json.dumps\<close> writes with its default separators and
  \<open>ensure_ascii\<close>: integers in decimal, strings quoted and escaped, the items of a dict
  in the order of their keys (strings compare by code point, as \<open>char list\<close> does).
  A \<open>char\<close> stands for a code point below 256.
\<close>

fun show_nat :: "nat \<Rightarrow> string" where
  "show_nat n =
     (if n < 10 then [char_of (48 + n)] else show_nat (n div 10) @ [char_of (48 + n mod 10)])"

declare show_nat.simps [simp del]

definition show_int :: "int \<Rightarrow> string" where
  "show_int i = (if i < 0 then CHR ''-'' # show_nat (nat (- i)) else show_nat (nat i))"

definition hex_digit :: "nat \<Rightarrow> char" where
  "hex_digit n = (if n < 10 then char_of (48 + n) else char_of (87 + n))"

definition escape_char :: "char \<Rightarrow> string" where
  "escape_char c =
     (if c = CHR 0x22 then [CHR 0x5C, CHR 0x22]
      else if c = CHR 0x5C then [CHR 0x5C, CHR 0x5C]
      else if c = CHR 0x0A then [CHR 0x5C, CHR ''n'']
      else if c = CHR 0x0D then [CHR 0x5C, CHR ''r'']
      else if c = CHR 0x09 then [CHR 0x5C, CHR ''t'']
      else if c = CHR 0x08 then [CHR 0x5C, CHR ''b'']
      else if c = CHR 0x0C then [CHR 0x5C, CHR ''f'']
      else if (of_char c :: nat) < 32 \<or> 126 < (of_char c :: nat)
        then [CHR 0x5C, CHR ''u'', CHR ''0'', CHR ''0'',
              hex_digit ((of_char c :: nat) div 16), hex_digit ((of_char c :: nat) mod 16)]
      else [c])"

definition encode_str :: "string \<Rightarrow> string" where
  "encode_str s = CHR 0x22 # concat (map escape_char s) @ [CHR 0x22]"

fun join :: "string \<Rightarrow> string list \<Rightarrow> string" where
  "join sep [] = []"
| "join sep [x] = x"
| "join sep (x # y # ys) = x @ sep @ join sep (y # ys)"

fun dumps :: "json \<Rightarrow> string" where
  "dumps JNull = ''null''"
| "dumps (JBool b) = (if b then ''true'' else ''false'')"
| "dumps (JInt i) = show_int i"
| "dumps (JStr s) = encode_str s"
| "dumps (JList xs) = ''['' @ join '', '' (map dumps xs) @ '']''"
| "dumps (JObj kvs) =
     ''{'' @ join '', ''
               (map (\<lambda>kv. encode_str (fst kv) @ '': '' @ dumps (snd kv)) (sort_key fst kvs)) @ ''}''"

section \<open>The pipelines application\<close>

subsection \<open>Models (pipelines/models.py)\<close>

text \<open>
  Primary keys (\<open>UUIDField\<close>, \<open>AutoField\<close>) are natural numbers, drawn from the
  store's \<open>next_id\<close>. A \<open>DateTimeField\<close> is an integer instant. A \<open>CharField\<close> with
  \<open>choices\<close> that the code only sets from its own literals is a datatype; a field the
  code fills from the request without checking it (\<open>trigger_type\<close>) stays a string.
  Fields no operation below reads or writes (description, resource estimates, run
  history, the automatic timestamps, the execution's metrics and logs) are not carried.
\<close>

type_synonym datetime = int

datatype execution_mode = Manual | Scheduled | On_demand

datatype pipeline_state = Draft | Validating | Ready | Running | Completed | Failed

fun state_name :: "pipeline_state \<Rightarrow> string" where
  "state_name Draft = ''draft''"
| "state_name Validating = ''validating''"
| "state_name Ready = ''ready''"
| "state_name Running = ''running''"
| "state_name Completed = ''completed''"
| "state_name Failed = ''failed''"

record pipeline =
  p_id :: nat
  p_name :: string
  p_project :: nat
  p_data_source :: nat
  p_target_dataset_name :: string
  p_execution_mode :: execution_mode
  p_schedule_expression :: string
  p_config :: json
  p_state :: pipeline_state
  p_next_scheduled_run :: "datetime option"
  p_current_version :: int
  p_created_by :: "nat option"
  p_is_deleted :: bool
  p_deleted_at :: "datetime option"

record pipeline_version =
  pv_id :: nat
  pv_pipeline :: nat
  pv_version_number :: int
  pv_config_snapshot :: json
  pv_created_by :: "nat option"
  pv_change_description :: string

datatype execution_state = EQueued | ERunning | ECompleted | EFailed | ECancelled

fun terminal :: "execution_state \<Rightarrow> bool" where
  "terminal EQueued = False"
| "terminal ERunning = False"
| "terminal _ = True"

record pipeline_execution =
  e_id :: nat
  e_pipeline :: nat
  e_pipeline_version :: "nat option"
  e_state :: execution_state
  e_trigger_type :: string
  e_triggered_by :: "nat option"
  e_created_dataset_version :: "nat option"

section \<open>The datasets application\<close>

subsection \<open>Models (datasets/models.py)\<close>

datatype visibility = Private | Project_members | Workspace_members

fun visibility_name :: "visibility \<Rightarrow> string" where
  "visibility_name Private = ''private''"
| "visibility_name Project_members = ''project''"
| "visibility_name Workspace_members = ''workspace''"

record dataset =
  d_id :: nat
  d_name :: string
  d_project :: nat
  d_visibility :: visibility
  d_current_version :: int
  d_is_deleted :: bool

datatype version_state = Creating | VReady | VFailed

fun version_state_name :: "version_state \<Rightarrow> string" where
  "version_state_name Creating = ''creating''"
| "version_state_name VReady = ''ready''"
| "version_state_name VFailed = ''failed''"

record dataset_version =
  dv_id :: nat
  dv_dataset :: nat
  dv_version_number :: int
  dv_state :: version_state
  dv_schema :: json
  dv_schema_hash :: string
  dv_column_count :: int
  dv_created_by_pipeline :: "nat option"

datatype lineage_type = LSource | LPipeline | LDataset

record dataset_lineage =
  dl_id :: nat
  dl_dataset_version :: nat
  dl_source_type :: lineage_type
  dl_source_data_source :: "nat option"
  dl_source_pipeline :: "nat option"
  dl_source_dataset_version :: "nat option"
  dl_transformation_details :: json

record dataset_query =
  dq_id :: nat
  dq_dataset_version :: nat
  dq_query_sql :: string
  dq_query_hash :: string
  dq_executed_by :: "nat option"
  dq_execution_time_ms :: "int option"
  dq_rows_returned :: "int option"
  dq_success :: bool

section \<open>The store and the requests\<close>

text \<open>
  The database: one list of rows per table, a new row at the head.
  \<open>project_memberships\<close> holds the (user, project) pairs behind
  \<open>user.project_memberships\<close>; \<open>data_sources\<close> holds the id and name of each DataSource.
\<close>

record store =
  pipelines :: "pipeline list"
  versions :: "pipeline_version list"
  executions :: "pipeline_execution list"
  datasets :: "dataset list"
  dataset_versions :: "dataset_version list"
  lineage :: "dataset_lineage list"
  queries :: "dataset_query list"
  data_sources :: "(nat \<times> string) list"
  project_memberships :: "(nat \<times> nat) list"
  next_id :: nat

text \<open>
  What a view reads of the request: the authenticated user, and the query parameters
  \<open>project\<close> and \<open>state\<close> (\<open>None\<close> when absent).
\<close>

record request =
  rq_user :: nat
  rq_project :: "nat option"
  rq_state :: "string option"

text \<open>
  A \<open>Response\<close> is its HTTP status and its body. \<open>Error\<close> is a body
  \<open>{'error': msg}\<close>, \<open>Message\<close> a body \<open>{'status': s, 'message': m}\<close>, \<open>Http404\<close> the
  framework's answer when \<open>get_object\<close> finds no row, \<open>NoContent\<close> an empty body,
  \<open>Invalid\<close> the body \<open>{field: message}\<close> of a \<open>serializers.ValidationError\<close>.
\<close>

datatype 'a body =
    Data 'a
  | Error string
  | Message string string
  | Invalid string string
  | Http404
  | NoContent

datatype 'a response = Response (status: nat) (body: "'a body")

abbreviation HTTP_200_OK :: nat where "HTTP_200_OK \<equiv> 200"
abbreviation HTTP_201_CREATED :: nat where "HTTP_201_CREATED \<equiv> 201"
abbreviation HTTP_204_NO_CONTENT :: nat where "HTTP_204_NO_CONTENT \<equiv> 204"
abbreviation HTTP_400_BAD_REQUEST :: nat where "HTTP_400_BAD_REQUEST \<equiv> 400"
abbreviation HTTP_404_NOT_FOUND :: nat where "HTTP_404_NOT_FOUND \<equiv> 404"

section \<open>PipelineViewSet (pipelines/views.py)\<close>

definition user_projects :: "store \<Rightarrow> nat \<Rightarrow> nat list" where
  "user_projects s u = map snd (filter (\<lambda>m. fst m = u) (project_memberships s))"

text \<open>
  \<open>get_queryset\<close>: the pipelines of the user's projects that are not flagged deleted,
  narrowed by the query parameters when they are present and not empty.
\<close>

definition get_queryset :: "store \<Rightarrow> request \<Rightarrow> pipeline list" where
  "get_queryset s rq =
     (let queryset = filter (\<lambda>p. p_project p \<in> set (user_projects s (rq_user rq)) \<and> \<not> p_is_deleted p)
                       (pipelines s);
          queryset = (case rq_project rq of
                        None \<Rightarrow> queryset
                      | Some project_id \<Rightarrow> filter (\<lambda>p. p_project p = project_id) queryset);
          queryset = (case rq_state rq of
                        None \<Rightarrow> queryset
                      | Some st \<Rightarrow> if st = [] then queryset
                                  else filter (\<lambda>p. state_name (p_state p) = st) queryset)
      in queryset)"

text \<open>\<open>get_object\<close> (inherited): the row of the queryset with this primary key.\<close>

definition get_object :: "store \<Rightarrow> request \<Rightarrow> nat \<Rightarrow> pipeline option" where
  "get_object s rq pk = find (\<lambda>p. p_id p = pk) (get_queryset s rq)"


text \<open>\<open>pipeline.save()\<close>: the row with the instance's primary key is overwritten.\<close>

definition save_pipeline :: "store \<Rightarrow> pipeline \<Rightarrow> store" where
  "save_pipeline s p =
     s\<lparr>pipelines := map (\<lambda>q. if p_id q = p_id p then p else q) (pipelines s)\<rparr>"



text \<open>
  \<open>scheduled\<close>: \<open>now\<close> is the reading of \<open>timezone.now()\<close>. A pipeline whose
  \<open>next_scheduled_run\<close> is NULL does not pass \<open>next_scheduled_run__lte\<close>.
\<close>

definition scheduled :: "store \<Rightarrow> request \<Rightarrow> datetime \<Rightarrow> store \<times> pipeline list response" where
  "scheduled s rq now =
     (let pipelines = filter (\<lambda>p. p_execution_mode p = Scheduled \<and> p_state p = Ready \<and>
                                  (case p_next_scheduled_run p of None \<Rightarrow> False | Some t \<Rightarrow> t \<le> now))
                        (get_queryset s rq)
      in (s, Response HTTP_200_OK (Data pipelines)))"

text \<open>
  \<open>destroy\<close> is not overridden: the inherited action deletes the row of \<open>get_object\<close>
  with \<open>instance.delete()\<close>. The foreign keys of pipelines/models.py and
  datasets/models.py say what goes with it: versions and executions cascade,
  \<open>created_by_pipeline\<close> and \<open>source_pipeline\<close> are set to NULL.
\<close>

definition destroy :: "store \<Rightarrow> request \<Rightarrow> nat \<Rightarrow> store \<times> unit response" where
  "destroy s rq pk =
     (case get_object s rq pk of
        None \<Rightarrow> (s, Response HTTP_404_NOT_FOUND Http404)
      | Some instance \<Rightarrow>
          (s\<lparr>pipelines := filter (\<lambda>p. p_id p \<noteq> pk) (pipelines s),
             versions := filter (\<lambda>v. pv_pipeline v \<noteq> pk) (versions s),
             executions := filter (\<lambda>e. e_pipeline e \<noteq> pk) (executions s),
             dataset_versions :=
               map (\<lambda>v. if dv_created_by_pipeline v = Some pk
                         then v\<lparr>dv_created_by_pipeline := None\<rparr> else v) (dataset_versions s),
             lineage :=
               map (\<lambda>l. if dl_source_pipeline l = Some pk
                         then l\<lparr>dl_source_pipeline := None\<rparr> else l) (lineage s)\<rparr>,
           Response HTTP_204_NO_CONTENT NoContent))"

section \<open>PipelineSerializer (pipelines/serializers.py)\<close>

text \<open>
  The data of a request after the fields' own validation. \<open>state\<close>, \<open>current_version\<close>
  and \<open>is_deleted\<close> are read-only fields and never part of it. On a create the four
  fields the model requires are present; on an update every field may be absent.
  \<open>p_next_scheduled_run\<close> accepts null, so a present value is itself an option.
\<close>

record schedule_data =
  execution_mode :: "execution_mode option"
  schedule_expression :: "string option"

record create_data = schedule_data +
  name :: string
  project :: nat
  data_source :: nat
  target_dataset_name :: string
  config :: "json option"
  next_scheduled_run :: "datetime option"

record update_data = schedule_data +
  new_name :: "string option"
  new_project :: "nat option"
  new_data_source :: "nat option"
  new_target_dataset_name :: "string option"
  new_config :: "json option"
  new_next_scheduled_run :: "datetime option option"

datatype validation_error = ValidationError string string

text \<open>\<open>validate\<close>: \<open>not data.get('schedule_expression')\<close> holds for a missing and for an
  empty expression.\<close>

definition validate :: "'a schedule_data_scheme \<Rightarrow> validation_error + 'a schedule_data_scheme" where
  "validate data =
     (if execution_mode data = Some Scheduled \<and>
         (case schedule_expression data of None \<Rightarrow> True | Some e \<Rightarrow> e = [])
      then Inl (ValidationError ''schedule_expression''
                  ''Schedule expression is required for scheduled pipelines'')
      else Inr data)"

text \<open>
  \<open>create\<close>: \<open>Pipeline.objects.create(**validated_data)\<close>, the absent fields taking the
  model's defaults (\<open>manual\<close>, the empty expression, \<open>dict\<close>, \<open>draft\<close>, version 1, not
  deleted), then the initial version. The pipeline row is new, so no version row refers
  to it yet and the unique constraint on (pipeline, version_number) cannot refuse.
\<close>

definition serializer_create :: "store \<Rightarrow> create_data \<Rightarrow> nat option \<Rightarrow> store \<times> pipeline" where
  "serializer_create s validated_data created_by =
     (let pipeline = \<lparr>p_id = next_id s,
                      p_name = name validated_data,
                      p_project = project validated_data,
                      p_data_source = data_source validated_data,
                      p_target_dataset_name = target_dataset_name validated_data,
                      p_execution_mode =
                        (case execution_mode validated_data of None \<Rightarrow> Manual | Some m \<Rightarrow> m),
                      p_schedule_expression =
                        (case schedule_expression validated_data of None \<Rightarrow> [] | Some e \<Rightarrow> e),
                      p_config = (case config validated_data of None \<Rightarrow> JObj [] | Some c \<Rightarrow> c),
                      p_state = Draft,
                      p_next_scheduled_run = next_scheduled_run validated_data,
                      p_current_version = 1,
                      p_created_by = created_by,
                      p_is_deleted = False,
                      p_deleted_at = None\<rparr>;
          version = \<lparr>pv_id = Suc (next_id s),
                     pv_pipeline = p_id pipeline,
                     pv_version_number = 1,
                     pv_config_snapshot =
                       (case config validated_data of None \<Rightarrow> JObj [] | Some c \<Rightarrow> c),
                     pv_created_by = created_by,
                     pv_change_description = ''Initial version''\<rparr>
      in (s\<lparr>pipelines := pipeline # pipelines s,
            versions := version # versions s,
            next_id := Suc (Suc (next_id s))\<rparr>, pipeline))"

text \<open>
  The create action: \<open>is_valid\<close> runs \<open>validate\<close> and answers 400 when it raises;
  \<open>perform_create\<close> saves with \<open>created_by=self.request.user\<close>.
\<close>

definition create :: "store \<Rightarrow> request \<Rightarrow> create_data \<Rightarrow> store \<times> pipeline response" where
  "create s rq data =
     (case validate data of
        Inl (ValidationError field msg) \<Rightarrow> (s, Response HTTP_400_BAD_REQUEST (Invalid field msg))
      | Inr validated_data \<Rightarrow>
          (case serializer_create s validated_data (Some (rq_user rq)) of
             (s', pipeline) \<Rightarrow> (s', Response HTTP_201_CREATED (Data pipeline))))"

text \<open>
  \<open>update\<close>. \<open>config_changed\<close> compares with Python's \<open>!=\<close>. Every present field is
  assigned. \<open>change_description\<close> is not a field of the serializer, so the new
  version's description is the default. \<open>PipelineVersion.objects.create\<close> raises
  \<open>IntegrityError\<close> when the pipeline already has a version with that number; nothing
  has been saved at that point.
\<close>

datatype db_error = IntegrityError

definition set_attrs :: "pipeline \<Rightarrow> update_data \<Rightarrow> pipeline" where
  "set_attrs instance d =
     instance\<lparr>
       p_name := (case new_name d of None \<Rightarrow> p_name instance | Some v \<Rightarrow> v),
       p_project := (case new_project d of None \<Rightarrow> p_project instance | Some v \<Rightarrow> v),
       p_data_source := (case new_data_source d of None \<Rightarrow> p_data_source instance | Some v \<Rightarrow> v),
       p_target_dataset_name :=
         (case new_target_dataset_name d of None \<Rightarrow> p_target_dataset_name instance | Some v \<Rightarrow> v),
       p_execution_mode :=
         (case execution_mode d of None \<Rightarrow> p_execution_mode instance | Some v \<Rightarrow> v),
       p_schedule_expression :=
         (case schedule_expression d of None \<Rightarrow> p_schedule_expression instance | Some v \<Rightarrow> v),
       p_config := (case new_config d of None \<Rightarrow> p_config instance | Some v \<Rightarrow> v),
       p_next_scheduled_run :=
         (case new_next_scheduled_run d of None \<Rightarrow> p_next_scheduled_run instance | Some v \<Rightarrow> v)\<rparr>"

definition config_changed :: "pipeline \<Rightarrow> update_data \<Rightarrow> bool" where
  "config_changed instance d =
     (case new_config d of None \<Rightarrow> False | Some c \<Rightarrow> \<not> py_eq c (p_config instance))"

definition serializer_update ::
  "store \<Rightarrow> nat \<Rightarrow> pipeline \<Rightarrow> update_data \<Rightarrow> db_error + store \<times> pipeline" where
  "serializer_update s user instance validated_data =
     (let changed = config_changed instance validated_data;
          instance1 = set_attrs instance validated_data
      in if changed then
           (let instance2 = instance1\<lparr>p_current_version := p_current_version instance1 + 1\<rparr>
            in if list_ex (\<lambda>v. pv_pipeline v = p_id instance2 \<and>
                                 pv_version_number v = p_current_version instance2) (versions s)
               then Inl IntegrityError
               else
                 (let version = \<lparr>pv_id = next_id s,
                                 pv_pipeline = p_id instance2,
                                 pv_version_number = p_current_version instance2,
                                 pv_config_snapshot =
                                   (case new_config validated_data of None \<Rightarrow> JObj [] | Some c \<Rightarrow> c),
                                 pv_created_by = Some user,
                                 pv_change_description = ''Configuration updated''\<rparr>;
                      s1 = s\<lparr>versions := version # versions s, next_id := Suc (next_id s)\<rparr>
                  in Inr (save_pipeline s1 instance2, instance2)))
         else Inr (save_pipeline s instance1, instance1))"

text \<open>A sequence of updates of one pipeline, each on the instance the one before saved.\<close>

fun update_all ::
  "store \<Rightarrow> nat \<Rightarrow> pipeline \<Rightarrow> update_data list \<Rightarrow> db_error + store \<times> pipeline" where
  "update_all s user instance [] = Inr (s, instance)"
| "update_all s user instance (d # ds) =
     (case serializer_update s user instance d of
        Inl e \<Rightarrow> Inl e
      | Inr (s', instance') \<Rightarrow> update_all s' user instance' ds)"

text \<open>The number of calls of a sequence that change the config, from the config \<open>c\<close>.\<close>

fun changes :: "json \<Rightarrow> update_data list \<Rightarrow> nat" where
  "changes c [] = 0"
| "changes c (d # ds) =
     (case new_config d of
        None \<Rightarrow> changes c ds
      | Some c' \<Rightarrow> (if py_eq c' c then 0 else 1) + changes c' ds)"

section \<open>DatasetVersion and DatasetQuery (datasets/models.py)\<close>

text \<open>
  \<open>hashlib.sha256(text.encode()).hexdigest()\<close> is the parameter \<open>sha256_hexdigest\<close> of
  the functions that hash. The text \<open>dumps\<close> writes is ASCII, so encoding it changes
  nothing.
\<close>

definition calculate_schema_hash :: "(string \<Rightarrow> string) \<Rightarrow> json \<Rightarrow> string" where
  "calculate_schema_hash sha256_hexdigest schema = sha256_hexdigest (dumps schema)"

datatype py_error = TypeError | KeyError

fun str_contains :: "string \<Rightarrow> string \<Rightarrow> bool" where
  "str_contains sub [] = (sub = [])"
| "str_contains sub (c # cs) = (take (length sub) (c # cs) = sub \<or> str_contains sub cs)"

text \<open>\<open>'columns' in schema\<close>: a key of a dict, an element of a list, a substring of a
  string; a number or a boolean is not iterable.\<close>

fun columns_in :: "json \<Rightarrow> py_error + bool" where
  "columns_in (JObj kvs) = Inr (''columns'' \<in> set (map fst kvs))"
| "columns_in (JList xs) = Inr (list_ex (\<lambda>x. py_eq x (JStr ''columns'')) xs)"
| "columns_in (JStr s) = Inr (str_contains ''columns'' s)"
| "columns_in _ = Inl TypeError"

fun py_len :: "json \<Rightarrow> py_error + int" where
  "py_len (JStr s) = Inr (int (length s))"
| "py_len (JList xs) = Inr (int (length xs))"
| "py_len (JObj kvs) = Inr (int (length kvs))"
| "py_len _ = Inl TypeError"

text \<open>\<open>len(schema['columns'])\<close>: only a dict can be indexed by a string.\<close>

fun columns_len :: "json \<Rightarrow> py_error + int" where
  "columns_len (JObj kvs) =
     (case map_of kvs ''columns'' of None \<Rightarrow> Inl KeyError | Some v \<Rightarrow> py_len v)"
| "columns_len _ = Inl TypeError"

text \<open>
  \<open>DatasetVersion.save\<close>, up to the call of \<open>super().save\<close>: the instance that is
  written, or the exception raised before anything is written.
\<close>

definition dataset_version_save ::
  "(string \<Rightarrow> string) \<Rightarrow> dataset_version \<Rightarrow> py_error + dataset_version" where
  "dataset_version_save sha256_hexdigest self =
     (let self1 = (if truthy (dv_schema self) \<and> dv_schema_hash self = []
                   then self\<lparr>dv_schema_hash := calculate_schema_hash sha256_hexdigest (dv_schema self)\<rparr>
                   else self)
      in if truthy (dv_schema self) then
           (case columns_in (dv_schema self) of
              Inl e \<Rightarrow> Inl e
            | Inr False \<Rightarrow> Inr self1
            | Inr True \<Rightarrow>
                (case columns_len (dv_schema self) of
                   Inl e \<Rightarrow> Inl e
                 | Inr n \<Rightarrow> Inr (self1\<lparr>dv_column_count := n\<rparr>)))
         else Inr self1)"

text \<open>\<open>DatasetQuery.save\<close>: the hash of the query text, when there is a text and no hash.\<close>

definition dataset_query_save :: "(string \<Rightarrow> string) \<Rightarrow> dataset_query \<Rightarrow> dataset_query" where
  "dataset_query_save sha256_hexdigest self =
     (if dq_query_sql self \<noteq> [] \<and> dq_query_hash self = []
      then self\<lparr>dq_query_hash := sha256_hexdigest (dq_query_sql self)\<rparr>
      else self)"

section \<open>DatasetViewSet (datasets/views.py)\<close>

record dataset_request =
  dr_user :: nat
  dr_project :: "nat option"
  dr_visibility :: "string option"
  dr_search :: "string option"

text \<open>\<open>name__icontains\<close>: containment without regard to the case of ASCII letters.\<close>

definition lower :: "char \<Rightarrow> char" where
  "lower c = (if CHR ''A'' \<le> c \<and> c \<le> CHR ''Z'' then char_of (of_char c + (32 :: nat)) else c)"

definition icontains :: "string \<Rightarrow> string \<Rightarrow> bool" where
  "icontains s sub = str_contains (map lower sub) (map lower s)"

definition dataset_get_queryset :: "store \<Rightarrow> dataset_request \<Rightarrow> dataset list" where
  "dataset_get_queryset s rq =
     (let queryset = filter (\<lambda>d. d_project d \<in> set (user_projects s (dr_user rq)) \<and> \<not> d_is_deleted d)
                       (datasets s);
          queryset = (case dr_project rq of
                        None \<Rightarrow> queryset
                      | Some project_id \<Rightarrow> filter (\<lambda>d. d_project d = project_id) queryset);
          queryset = (case dr_visibility rq of
                        None \<Rightarrow> queryset
                      | Some v \<Rightarrow> if v = [] then queryset
                                 else filter (\<lambda>d. visibility_name (d_visibility d) = v) queryset);
          queryset = (case dr_search rq of
                        None \<Rightarrow> queryset
                      | Some search \<Rightarrow> if search = [] then queryset
                                      else filter (\<lambda>d. icontains (d_name d) search) queryset)
      in queryset)"

definition dataset_get_object :: "store \<Rightarrow> dataset_request \<Rightarrow> nat \<Rightarrow> dataset option" where
  "dataset_get_object s rq pk = find (\<lambda>d. d_id d = pk) (dataset_get_queryset s rq)"

text \<open>\<open>dataset.versions\<close> and \<open>dataset.versions.get(version_number=n)\<close>
  (\<open>unique_together\<close> lets at most one row match).\<close>

definition versions_of :: "store \<Rightarrow> nat \<Rightarrow> dataset_version list" where
  "versions_of s d = filter (\<lambda>v. dv_dataset v = d) (dataset_versions s)"

definition dataset_versions_get :: "store \<Rightarrow> nat \<Rightarrow> int \<Rightarrow> dataset_version option" where
  "dataset_versions_get s d n = find (\<lambda>v. dv_version_number v = n) (versions_of s d)"

text \<open>The mock result of \<open>query\<close>, as the view writes it.\<close>

record query_result =
  columns :: "string list"
  rows :: "json list list"
  row_count :: int
  execution_time_ms :: int

definition mock_result :: query_result where
  "mock_result =
     \<lparr>columns = [''id'', ''name'', ''age''],
      rows = [[JInt 1, JStr ''Alice'', JInt 30], [JInt 2, JStr ''Bob'', JInt 25]],
      row_count = 2,
      execution_time_ms = 45\<rparr>"

text \<open>
  \<open>query\<close>. \<open>version\<close> and \<open>query_sql\<close> are \<open>request.data.get('version')\<close> and
  \<open>request.data.get('query')\<close>; \<open>limit\<close> is read and not used.
\<close>

definition query ::
  "(string \<Rightarrow> string) \<Rightarrow> store \<Rightarrow> dataset_request \<Rightarrow> int option \<Rightarrow> string option \<Rightarrow> nat
     \<Rightarrow> store \<times> query_result response" where
  "query sha256_hexdigest s rq version query_sql pk =
     (case dataset_get_object s rq pk of
        None \<Rightarrow> (s, Response HTTP_404_NOT_FOUND Http404)
      | Some dataset \<Rightarrow>
          let version_number = (case version of None \<Rightarrow> d_current_version dataset | Some n \<Rightarrow> n) in
          if (case query_sql of None \<Rightarrow> True | Some q \<Rightarrow> q = []) then
            (s, Response HTTP_400_BAD_REQUEST (Error ''Query SQL is required''))
          else
            (case dataset_versions_get s (d_id dataset) version_number of
               None \<Rightarrow> (s, Response HTTP_404_NOT_FOUND
                            (Error (''Version '' @ show_int version_number @ '' not found'')))
             | Some version \<Rightarrow>
                 if dv_state version \<noteq> VReady then
                   (s, Response HTTP_400_BAD_REQUEST
                         (Error (''Dataset version is not ready (state: '' @
                                 version_state_name (dv_state version) @ '')'')))
                 else
                   let result = mock_result;
                       query_log = dataset_query_save sha256_hexdigest
                                     \<lparr>dq_id = next_id s,
                                      dq_dataset_version = dv_id version,
                                      dq_query_sql = (case query_sql of None \<Rightarrow> [] | Some q \<Rightarrow> q),
                                      dq_query_hash = [],
                                      dq_executed_by = Some (dr_user rq),
                                      dq_execution_time_ms = Some (execution_time_ms result),
                                      dq_rows_returned = Some (row_count result),
                                      dq_success = True\<rparr>
                   in (s\<lparr>queries := query_log # queries s, next_id := Suc (next_id s)\<rparr>,
                       Response HTTP_200_OK (Data result))))"

text \<open>
  \<open>version.delete()\<close>: the row goes, its lineage edges and its query log cascade, and
  the references to it (\<open>source_dataset_version\<close>, \<open>created_dataset_version\<close>) are
  set to NULL.
\<close>

definition delete_dataset_version :: "store \<Rightarrow> dataset_version \<Rightarrow> store" where
  "delete_dataset_version s version =
     s\<lparr>dataset_versions := filter (\<lambda>v. dv_id v \<noteq> dv_id version) (dataset_versions s),
       lineage :=
         map (\<lambda>l. if dl_source_dataset_version l = Some (dv_id version)
                   then l\<lparr>dl_source_dataset_version := None\<rparr> else l)
           (filter (\<lambda>l. dl_dataset_version l \<noteq> dv_id version) (lineage s)),
       queries := filter (\<lambda>q. dq_dataset_version q \<noteq> dv_id version) (queries s),
       executions :=
         map (\<lambda>e. if e_created_dataset_version e = Some (dv_id version)
                   then e\<lparr>e_created_dataset_version := None\<rparr> else e) (executions s)\<rparr>"

text \<open>\<open>delete_version\<close>. The URL pattern \<open>[0-9]+\<close> makes \<open>version_number\<close> a natural
  number.\<close>

definition delete_version ::
  "store \<Rightarrow> dataset_request \<Rightarrow> nat \<Rightarrow> nat \<Rightarrow> store \<times> unit response" where
  "delete_version s rq pk version_number =
     (case dataset_get_object s rq pk of
        None \<Rightarrow> (s, Response HTTP_404_NOT_FOUND Http404)
      | Some dataset \<Rightarrow>
          (case dataset_versions_get s (d_id dataset) (int version_number) of
             None \<Rightarrow> (s, Response HTTP_404_NOT_FOUND
                          (Error (''Version '' @ show_nat version_number @ '' not found'')))
           | Some version \<Rightarrow>
               if length (versions_of s (d_id dataset)) = 1 then
                 (s, Response HTTP_400_BAD_REQUEST (Error ''Cannot delete the only version''))
               else if dv_version_number version = d_current_version dataset then
                 (s, Response HTTP_400_BAD_REQUEST
                       (Error ''Cannot delete the current version. Set a different version as current first.''))
               else
                 (delete_dataset_version s version, Response HTTP_204_NO_CONTENT NoContent)))"

section \<open>DatasetLineage (datasets/models.py, datasets/serializers.py)\<close>

text \<open>
  The model declares the three upstream references \<open>null=True, blank=True\<close> and has no
  \<open>clean\<close>; the serializer has no \<open>validate\<close>. What the database asks of a new row is
  what the foreign keys ask: the dataset version exists, and so does each row a
  populated reference names. \<open>lineage_create\<close> is
  \<open>DatasetLineage.objects.create(...)\<close> on these declarations.
\<close>

record lineage_data =
  ld_dataset_version :: nat
  ld_source_type :: lineage_type
  ld_source_data_source :: "nat option"
  ld_source_pipeline :: "nat option"
  ld_source_dataset_version :: "nat option"
  ld_transformation_details :: json

definition references_exist :: "store \<Rightarrow> lineage_data \<Rightarrow> bool" where
  "references_exist s d =
     (ld_dataset_version d \<in> set (map dv_id (dataset_versions s)) \<and>
      (case ld_source_data_source d of None \<Rightarrow> True
         | Some i \<Rightarrow> i \<in> set (map fst (data_sources s))) \<and>
      (case ld_source_pipeline d of None \<Rightarrow> True
         | Some i \<Rightarrow> i \<in> set (map p_id (pipelines s))) \<and>
      (case ld_source_dataset_version d of None \<Rightarrow> True
         | Some i \<Rightarrow> i \<in> set (map dv_id (dataset_versions s))))"

definition lineage_create :: "store \<Rightarrow> lineage_data \<Rightarrow> db_error + store \<times> dataset_lineage" where
  "lineage_create s d =
     (if references_exist s d then
        (let edge = \<lparr>dl_id = next_id s,
                     dl_dataset_version = ld_dataset_version d,
                     dl_source_type = ld_source_type d,
                     dl_source_data_source = ld_source_data_source d,
                     dl_source_pipeline = ld_source_pipeline d,
                     dl_source_dataset_version = ld_source_dataset_version d,
                     dl_transformation_details = ld_transformation_details d\<rparr>
         in Inr (s\<lparr>lineage := edge # lineage s, next_id := Suc (next_id s)\<rparr>, edge))
      else Inl IntegrityError)"

text \<open>
  \<open>get_source_name\<close>: the name behind the reference that matches the kind, \<open>None\<close>
  when that reference is not populated. \<open>Inl DoesNotExist\<close> stands for a reference to
  a row that is not there. \<open>str\<close> of a dataset version is its dataset's name,
  \<open>v\<close> and the version number.
\<close>

datatype orm_error = DoesNotExist

definition dataset_version_str :: "store \<Rightarrow> nat \<Rightarrow> orm_error + string" where
  "dataset_version_str s i =
     (case find (\<lambda>v. dv_id v = i) (dataset_versions s) of
        None \<Rightarrow> Inl DoesNotExist
      | Some v \<Rightarrow>
          (case find (\<lambda>d. d_id d = dv_dataset v) (datasets s) of
             None \<Rightarrow> Inl DoesNotExist
           | Some d \<Rightarrow> Inr (d_name d @ '' v'' @ show_int (dv_version_number v))))"

definition get_source_name :: "store \<Rightarrow> dataset_lineage \<Rightarrow> orm_error + string option" where
  "get_source_name s obj =
     (if dl_source_type obj = LSource \<and> dl_source_data_source obj \<noteq> None then
        (case map_of (data_sources s) (the (dl_source_data_source obj)) of
           None \<Rightarrow> Inl DoesNotExist | Some n \<Rightarrow> Inr (Some n))
      else if dl_source_type obj = LPipeline \<and> dl_source_pipeline obj \<noteq> None then
        (case find (\<lambda>p. p_id p = the (dl_source_pipeline obj)) (pipelines s) of
           None \<Rightarrow> Inl DoesNotExist | Some p \<Rightarrow> Inr (Some (p_name p)))
      else if dl_source_type obj = LDataset \<and> dl_source_dataset_version obj \<noteq> None then
        (case dataset_version_str s (the (dl_source_dataset_version obj)) of
           Inl e \<Rightarrow> Inl e | Inr n \<Rightarrow> Inr (Some n))
      else Inr None)"

text \<open>The populated upstream references of an edge, and the one its kind names.\<close>

definition populated :: "dataset_lineage \<Rightarrow> nat" where
  "populated l =
     (if dl_source_data_source l = None then 0 else 1) +
     (if dl_source_pipeline l = None then 0 else 1) +
     (if dl_source_dataset_version l = None then 0 else 1)"

definition matching_reference :: "dataset_lineage \<Rightarrow> nat option" where
  "matching_reference l =
     (case dl_source_type l of
        LSource \<Rightarrow> dl_source_data_source l
      | LPipeline \<Rightarrow> dl_source_pipeline l
      | LDataset \<Rightarrow> dl_source_dataset_version l)"

section \<open>A small database\<close>

text \<open>
  One project (10) with one member (user 7), one scheduled pipeline in state ready with
  its first version, and one dataset with three versions, the second one current and
  the third still being created.
\<close>

definition demo_config :: json where
  "demo_config = JObj [(''steps'', JList [JStr ''filter_rows''])]"

definition demo_pipeline :: pipeline where
  "demo_pipeline =
     \<lparr>p_id = 1, p_name = ''orders'', p_project = 10, p_data_source = 5,
      p_target_dataset_name = ''orders_clean'', p_execution_mode = Scheduled,
      p_schedule_expression = ''0 * * * *'', p_config = demo_config, p_state = Ready,
      p_next_scheduled_run = Some 100, p_current_version = 1, p_created_by = Some 7,
      p_is_deleted = False, p_deleted_at = None\<rparr>"

definition demo_version :: pipeline_version where
  "demo_version =
     \<lparr>pv_id = 2, pv_pipeline = 1, pv_version_number = 1, pv_config_snapshot = demo_config,
      pv_created_by = Some 7, pv_change_description = ''Initial version''\<rparr>"

definition demo_schema :: json where
  "demo_schema =
     JObj [(''columns'', JList [JObj [(''name'', JStr ''id''), (''type'', JStr ''INTEGER'')]])]"

definition demo_schema_reordered :: json where
  "demo_schema_reordered =
     JObj [(''columns'', JList [JObj [(''type'', JStr ''INTEGER''), (''name'', JStr ''id'')]])]"

definition demo_dataset :: dataset where
  "demo_dataset =
     \<lparr>d_id = 20, d_name = ''orders'', d_project = 10, d_visibility = Private,
      d_current_version = 2, d_is_deleted = False\<rparr>"

definition demo_dataset_version :: "nat \<Rightarrow> int \<Rightarrow> version_state \<Rightarrow> dataset_version" where
  "demo_dataset_version i n st =
     \<lparr>dv_id = i, dv_dataset = 20, dv_version_number = n, dv_state = st,
      dv_schema = demo_schema, dv_schema_hash = [], dv_column_count = 0,
      dv_created_by_pipeline = None\<rparr>"

definition demo_store :: store where
  "demo_store =
     \<lparr>pipelines = [demo_pipeline],
      versions = [demo_version],
      executions = [],
      datasets = [demo_dataset],
      dataset_versions = [demo_dataset_version 23 3 Creating, demo_dataset_version 22 2 VReady,
                          demo_dataset_version 21 1 VReady],
      lineage = [],
      queries = [],
      data_sources = [(5, ''warehouse'')],
      project_memberships = [(7, 10)],
      next_id = 30\<rparr>"

definition demo_request :: request where
  "demo_request = \<lparr>rq_user = 7, rq_project = None, rq_state = None\<rparr>"

definition demo_dataset_request :: dataset_request where
  "demo_dataset_request = \<lparr>dr_user = 7, dr_project = None, dr_visibility = None, dr_search = None\<rparr>"

text \<open>The same database with an execution of the pipeline that is still queued, the
  pipeline's own state being ready.\<close>

definition queued_execution :: pipeline_execution where
  "queued_execution =
     \<lparr>e_id = 3, e_pipeline = 1, e_pipeline_version = Some 2, e_state = EQueued,
      e_trigger_type = ''manual'', e_triggered_by = Some 7, e_created_dataset_version = None\<rparr>"

definition stale_store :: store where
  "stale_store = demo_store\<lparr>executions := [queued_execution]\<rparr>"

text \<open>A lineage edge of kind pipeline with no upstream reference populated.\<close>

definition unmatched_edge :: lineage_data where
  "unmatched_edge =
     \<lparr>ld_dataset_version = 21, ld_source_type = LPipeline, ld_source_data_source = None,
      ld_source_pipeline = None, ld_source_dataset_version = None,
      ld_transformation_details = JObj []\<rparr>"

text \<open>Two definitions of a pipeline: a manual one, and a scheduled one with no schedule
  expression.\<close>

definition manual_definition :: create_data where
  "manual_definition =
     \<lparr>execution_mode = Some Manual, schedule_expression = None, name = ''orders'',
      project = 10, data_source = 5, target_dataset_name = ''orders_clean'',
      config = Some demo_config, next_scheduled_run = None\<rparr>"

definition unscheduled_definition :: create_data where
  "unscheduled_definition = manual_definition\<lparr>execution_mode := Some Scheduled\<rparr>"

text \<open>The database with the first version of the dataset alone.\<close>

definition single_version_store :: store where
  "single_version_store = demo_store\<lparr>dataset_versions := [demo_dataset_version 21 1 VReady]\<rparr>"

text \<open>No version of the pipeline is numbered above its \<open>current_version\<close>.\<close>

definition versions_below :: "store \<Rightarrow> pipeline \<Rightarrow> bool" where
  "versions_below s inst =
     list_all (\<lambda>v. pv_pipeline v = p_id inst \<longrightarrow> pv_version_number v \<le> p_current_version inst)
       (versions s)"

text \<open>An update that carries a config, or nothing, and a sequence of four of them.\<close>

definition config_update :: "json option \<Rightarrow> update_data" where
  "config_update c =
     \<lparr>execution_mode = None, schedule_expression = None, new_name = None, new_project = None,
      new_data_source = None, new_target_dataset_name = None, new_config = c,
      new_next_scheduled_run = None\<rparr>"

definition demo_updates :: "update_data list" where
  "demo_updates =
     [config_update (Some demo_config), config_update (Some (JObj [])), config_update None,
      config_update (Some demo_config)]"

text \<open>The first version of the dataset as \<open>save\<close> writes it, and a schema without
  columns.\<close>

definition saved_version :: dataset_version where
  "saved_version =
     (demo_dataset_version 21 1 VReady)
       \<lparr>dv_schema_hash := calculate_schema_hash id demo_schema, dv_column_count := 1\<rparr>"

definition empty_columns_schema :: json where
  "empty_columns_schema = JObj [(''columns'', JList [])]"

text \<open>The row of \<open>unmatched_edge\<close>, and an edge of kind pipeline that names the
  pipeline.\<close>

definition unmatched_row :: dataset_lineage where
  "unmatched_row =
     \<lparr>dl_id = 30, dl_dataset_version = 21, dl_source_type = LPipeline,
      dl_source_data_source = None, dl_source_pipeline = None,
      dl_source_dataset_version = None, dl_transformation_details = JObj []\<rparr>"

definition matched_row :: dataset_lineage where
  "matched_row = unmatched_row\<lparr>dl_source_pipeline := Some 1\<rparr>"




text \<open>A request of a user who is a member of no project, and a request of the member
  that filters on the state running.\<close>

definition outsider_request :: request where
  "outsider_request = demo_request\<lparr>rq_user := 8\<rparr>"

definition running_filter_request :: request where
  "running_filter_request = demo_request\<lparr>rq_state := Some ''running''\<rparr>"

text \<open>The configs \<open>{"n": 1}\<close> and \<open>{"n": true}\<close>, and the database in which the
  pipeline and its first version hold the first of them.\<close>

definition int_config :: json where
  "int_config = JObj [(''n'', JInt 1)]"

definition bool_config :: json where
  "bool_config = JObj [(''n'', JBool True)]"

definition int_pipeline :: pipeline where
  "int_pipeline = demo_pipeline\<lparr>p_config := int_config\<rparr>"

definition int_store :: store where
  "int_store =
     demo_store\<lparr>pipelines := [int_pipeline],
                versions := [demo_version\<lparr>pv_config_snapshot := int_config\<rparr>]\<rparr>"

section \<open>Triggering an execution\<close>


lemma get_queryset_subset: "set (get_queryset s rq) \<subseteq> set (pipelines s)"
  by (auto simp: get_queryset_def Let_def split: option.splits)


















section \<open>Selecting the pipelines that are due\<close>

text \<open>
  Claim C9, as amended. \<open>scheduled\<close> leaves the store as it is and answers 200 with
  exactly the pipelines of the caller's queryset whose mode is scheduled, whose state
  is ready and whose \<open>next_scheduled_run\<close> is set and not after \<open>now\<close>. The
  caller's queryset holds the pipelines that belong to a project the requesting user is
  a member of, are not flagged deleted, and pass the request's \<open>project\<close> and
  \<open>state\<close> filters when these are given; only for a caller who is a member of every
  project and sends no filter is it every pipeline not flagged deleted.
\<close>

theorem scheduled_selects_due:
  "fst (scheduled s rq now) = s \<and>
   (\<exists>due. snd (scheduled s rq now) = Response HTTP_200_OK (Data due) \<and>
      set due = {p \<in> set (get_queryset s rq).
                  p_execution_mode p = Scheduled \<and> p_state p = Ready \<and>
                  (\<exists>t. p_next_scheduled_run p = Some t \<and> t \<le> now)}) \<and>
   set (get_queryset s rq) =
     {p \<in> set (pipelines s).
        p_project p \<in> set (user_projects s (rq_user rq)) \<and> \<not> p_is_deleted p \<and>
        (\<forall>i. rq_project rq = Some i \<longrightarrow> p_project p = i) \<and>
        (\<forall>st. rq_state rq = Some st \<and> st \<noteq> [] \<longrightarrow> state_name (p_state p) = st)} \<and>
   ((\<forall>p \<in> set (pipelines s). p_project p \<in> set (user_projects s (rq_user rq))) \<and>
      rq_project rq = None \<and> rq_state rq = None \<longrightarrow>
    set (get_queryset s rq) = {p \<in> set (pipelines s). \<not> p_is_deleted p})"
  by (auto simp: scheduled_def get_queryset_def Let_def split: option.splits)

theorem scheduled_selects_due_witness:
  "list_all (\<lambda>p. p_project p \<in> set (user_projects demo_store (rq_user demo_request)))
     (pipelines demo_store) \<and>
   rq_project demo_request = None \<and> rq_state demo_request = None \<and>
   fst (scheduled demo_store demo_request 100) = demo_store \<and>
   snd (scheduled demo_store demo_request 100) = Response HTTP_200_OK (Data [demo_pipeline]) \<and>
   snd (scheduled demo_store demo_request 99) = Response HTTP_200_OK (Data []) \<and>
   set (get_queryset demo_store demo_request) = {p \<in> set (pipelines demo_store). \<not> p_is_deleted p}"
proof -
  have h: "(\<forall>p \<in> set (pipelines demo_store). p_project p \<in> set (user_projects demo_store (rq_user demo_request))) \<and>
   rq_project demo_request = None \<and> rq_state demo_request = None"
    by (simp add: demo_store_def demo_request_def demo_pipeline_def user_projects_def)
  have q: "get_queryset demo_store demo_request = [demo_pipeline]"
    by (simp add: get_queryset_def demo_store_def demo_request_def demo_pipeline_def user_projects_def)
  have a: "snd (scheduled demo_store demo_request 100) = Response HTTP_200_OK (Data [demo_pipeline])"
    by (simp add: scheduled_def q) (simp add: demo_pipeline_def)
  have b: "snd (scheduled demo_store demo_request 99) = Response HTTP_200_OK (Data [])"
    by (simp add: scheduled_def q) (simp add: demo_pipeline_def)
  from h have h': "list_all (\<lambda>p. p_project p \<in> set (user_projects demo_store (rq_user demo_request)))
     (pipelines demo_store)"
    by (simp add: list_all_iff)
  from scheduled_selects_due [of demo_store demo_request 100] h h' a b show ?thesis by blast
qed

text \<open>
  Claim C9 as stated fails: the pipeline of \<open>demo_store\<close> is not deleted, scheduled,
  ready and due at 100, and \<open>scheduled\<close> returns no pipeline to a user who is not a
  member of its project, nor to the member who filters on another state.
\<close>

theorem scheduled_hides_other_projects:
  "pipelines demo_store = [demo_pipeline] \<and> \<not> p_is_deleted demo_pipeline \<and>
   p_execution_mode demo_pipeline = Scheduled \<and> p_state demo_pipeline = Ready \<and>
   p_next_scheduled_run demo_pipeline = Some 100 \<and>
   scheduled demo_store outsider_request 100 = (demo_store, Response HTTP_200_OK (Data [])) \<and>
   scheduled demo_store running_filter_request 100 = (demo_store, Response HTTP_200_OK (Data []))"
  by (simp add: scheduled_def get_queryset_def user_projects_def outsider_request_def
      running_filter_request_def demo_request_def demo_store_def demo_pipeline_def)

section \<open>Deleting a pipeline\<close>

text \<open>
  Claim C7, as amended. Deleting a pipeline is never refused on account of its
  executions: for every pipeline the request reaches, \<open>destroy\<close> answers 204 No
  Content, and afterwards no request reaches that pipeline any more.
\<close>

theorem destroy_not_guarded:
  assumes "get_object s rq pk = Some p"
  shows "snd (destroy s rq pk) = Response HTTP_204_NO_CONTENT NoContent \<and>
         get_object (fst (destroy s rq pk)) rq' pk = None"
proof -
  have "set (get_queryset (fst (destroy s rq pk)) rq') \<subseteq> set (pipelines (fst (destroy s rq pk)))"
    by (rule get_queryset_subset)
  moreover have "\<forall>q \<in> set (pipelines (fst (destroy s rq pk))). p_id q \<noteq> pk"
    using assms by (simp add: destroy_def)
  ultimately have "\<forall>q \<in> set (get_queryset (fst (destroy s rq pk)) rq'). p_id q \<noteq> pk" by blast
  then have "get_object (fst (destroy s rq pk)) rq' pk = None"
    by (simp add: get_object_def find_None_iff)
  with assms show ?thesis by (simp add: destroy_def)
qed

lemma stale_get_object: "get_object stale_store demo_request 1 = Some demo_pipeline"
  by (simp add: get_object_def get_queryset_def user_projects_def demo_store_def
      demo_request_def demo_pipeline_def stale_store_def)

theorem destroy_not_guarded_witness:
  "get_object stale_store demo_request 1 = Some demo_pipeline \<and>
   snd (destroy stale_store demo_request 1) = Response HTTP_204_NO_CONTENT NoContent \<and>
   get_object (fst (destroy stale_store demo_request 1)) demo_request 1 = None"
  by (rule conjI [OF stale_get_object destroy_not_guarded [OF stale_get_object]])

text \<open>
  Claim C7 as stated fails: on \<open>stale_store\<close>, where the pipeline has a queued
  execution, \<open>destroy\<close> answers 204 and the pipeline's row, its version and its
  execution are gone.
\<close>

theorem destroy_removes_history:
  "filter (\<lambda>e. e_pipeline e = 1 \<and> \<not> terminal (e_state e)) (executions stale_store) = [queued_execution] \<and>
   versions stale_store = [demo_version] \<and>
   destroy stale_store demo_request 1 =
     (stale_store\<lparr>pipelines := [], versions := [], executions := []\<rparr>,
      Response HTTP_204_NO_CONTENT NoContent)"
proof -
  have d: "destroy stale_store demo_request 1 =
     (stale_store\<lparr>pipelines := [], versions := [], executions := []\<rparr>,
      Response HTTP_204_NO_CONTENT NoContent)"
    using stale_get_object
    by (simp add: destroy_def)
       (simp add: stale_store_def demo_store_def demo_pipeline_def demo_version_def
          queued_execution_def demo_dataset_version_def)
  show ?thesis unfolding d
    by (simp add: stale_store_def demo_store_def queued_execution_def)
qed

section \<open>Creating a pipeline\<close>

text \<open>
  Claim C6. When the execution mode is scheduled and the schedule expression is missing
  or empty, \<open>create\<close> answers 400 with the validation error on
  \<open>schedule_expression\<close> and the store is unchanged. Otherwise it answers 201 with a
  new pipeline in state draft, \<open>current_version\<close> 1, and adds exactly one version
  row: of that pipeline, numbered 1, whose snapshot is the given config (the empty
  dict when none is given), which is also the pipeline's config.
\<close>

theorem create_pipeline_with_first_version:
  "(execution_mode data = Some Scheduled \<and>
      (schedule_expression data = None \<or> schedule_expression data = Some []) \<longrightarrow>
    create s rq data =
      (s, Response HTTP_400_BAD_REQUEST
            (Invalid ''schedule_expression''
               ''Schedule expression is required for scheduled pipelines''))) \<and>
   (\<not> (execution_mode data = Some Scheduled \<and>
        (schedule_expression data = None \<or> schedule_expression data = Some [])) \<longrightarrow>
    (\<exists>p v s'. create s rq data = (s', Response HTTP_201_CREATED (Data p)) \<and>
       pipelines s' = p # pipelines s \<and> versions s' = v # versions s \<and>
       p_state p = Draft \<and> p_current_version p = 1 \<and>
       p_config p = (case config data of None \<Rightarrow> JObj [] | Some c \<Rightarrow> c) \<and>
       pv_pipeline v = p_id p \<and> pv_version_number v = 1 \<and>
       pv_config_snapshot v = (case config data of None \<Rightarrow> JObj [] | Some c \<Rightarrow> c)))"
  by (auto simp: create_def validate_def serializer_create_def Let_def split: option.splits)

theorem create_pipeline_with_first_version_witness:
  "execution_mode unscheduled_definition = Some Scheduled \<and>
   schedule_expression unscheduled_definition = None \<and>
   create demo_store demo_request unscheduled_definition =
      (demo_store, Response HTTP_400_BAD_REQUEST
            (Invalid ''schedule_expression''
               ''Schedule expression is required for scheduled pipelines'')) \<and>
   execution_mode manual_definition = Some Manual \<and>
   (\<exists>p v s'. create demo_store demo_request manual_definition = (s', Response HTTP_201_CREATED (Data p)) \<and>
       pipelines s' = p # pipelines demo_store \<and> versions s' = v # versions demo_store \<and>
       p_state p = Draft \<and> p_current_version p = 1 \<and>
       p_config p = demo_config \<and>
       pv_pipeline v = p_id p \<and> pv_version_number v = 1 \<and>
       pv_config_snapshot v = demo_config)"
proof -
  have u: "execution_mode unscheduled_definition = Some Scheduled"
      "schedule_expression unscheduled_definition = None"
    by (simp_all add: unscheduled_definition_def manual_definition_def)
  have m: "execution_mode manual_definition = Some Manual" "config manual_definition = Some demo_config"
    by (simp_all add: manual_definition_def)
  from create_pipeline_with_first_version [of unscheduled_definition demo_store demo_request]
    create_pipeline_with_first_version [of manual_definition demo_store demo_request] u m
  show ?thesis by simp
qed

section \<open>Querying a dataset version\<close>

text \<open>
  Claim C10. A \<open>query\<close> that addresses an existing version of a dataset the request
  reaches, the version's state being other than ready (creating or failed), is answered
  with 400 and an error body, and the store, the query log included, is unchanged. An
  answer of 200 is only given for a version in state ready, and the query log only
  changes together with an answer of 200.
\<close>

theorem query_requires_ready:
  "(\<forall>d v. dataset_get_object s rq pk = Some d \<and>
          dataset_versions_get s (d_id d) (case version of None \<Rightarrow> d_current_version d | Some n \<Rightarrow> n) = Some v \<and>
          dv_state v \<noteq> VReady \<longrightarrow>
      fst (query sha256_hexdigest s rq version query_sql pk) = s \<and>
      status (snd (query sha256_hexdigest s rq version query_sql pk)) = HTTP_400_BAD_REQUEST \<and>
      (\<exists>msg. body (snd (query sha256_hexdigest s rq version query_sql pk)) = Error msg)) \<and>
   (status (snd (query sha256_hexdigest s rq version query_sql pk)) = HTTP_200_OK \<longrightarrow>
      (\<exists>d v. dataset_get_object s rq pk = Some d \<and>
          dataset_versions_get s (d_id d) (case version of None \<Rightarrow> d_current_version d | Some n \<Rightarrow> n) = Some v \<and>
          dv_state v = VReady)) \<and>
   (queries (fst (query sha256_hexdigest s rq version query_sql pk)) \<noteq> queries s \<longrightarrow>
      status (snd (query sha256_hexdigest s rq version query_sql pk)) = HTTP_200_OK)"
  by (auto simp: query_def Let_def split: option.splits if_splits)

lemma demo_dataset_get_object: "dataset_get_object demo_store demo_dataset_request 20 = Some demo_dataset"
  by (simp add: dataset_get_object_def dataset_get_queryset_def user_projects_def demo_store_def
      demo_dataset_request_def demo_dataset_def)

lemma demo_dataset_versions_get:
  "dataset_versions_get demo_store 20 3 = Some (demo_dataset_version 23 3 Creating)"
  "dataset_versions_get demo_store 20 2 = Some (demo_dataset_version 22 2 VReady)"
  "dataset_versions_get demo_store 20 1 = Some (demo_dataset_version 21 1 VReady)"
  by (simp_all add: dataset_versions_get_def versions_of_def demo_store_def demo_dataset_version_def)

theorem query_requires_ready_witness:
  "dataset_get_object demo_store demo_dataset_request 20 = Some demo_dataset \<and>
   dataset_versions_get demo_store (d_id demo_dataset) 3 = Some (demo_dataset_version 23 3 Creating) \<and>
   dv_state (demo_dataset_version 23 3 Creating) \<noteq> VReady \<and>
   fst (query id demo_store demo_dataset_request (Some 3) (Some ''SELECT 1'') 20) = demo_store \<and>
   status (snd (query id demo_store demo_dataset_request (Some 3) (Some ''SELECT 1'') 20)) = HTTP_400_BAD_REQUEST \<and>
   status (snd (query id demo_store demo_dataset_request None (Some ''SELECT 1'') 20)) = HTTP_200_OK \<and>
   length (queries (fst (query id demo_store demo_dataset_request None (Some ''SELECT 1'') 20))) = 1"
proof -
  have i: "d_id demo_dataset = 20" "d_current_version demo_dataset = 2" by (simp_all add: demo_dataset_def)
  have st: "dv_state (demo_dataset_version 23 3 Creating) \<noteq> VReady"
      "dv_state (demo_dataset_version 22 2 VReady) = VReady"
    by (simp_all add: demo_dataset_version_def)
  have ok: "status (snd (query id demo_store demo_dataset_request None (Some ''SELECT 1'') 20)) = HTTP_200_OK"
    using demo_dataset_get_object demo_dataset_versions_get(2) i st(2)
    by (simp add: query_def Let_def)
  have n: "length (queries (fst (query id demo_store demo_dataset_request None (Some ''SELECT 1'') 20))) = 1"
    using demo_dataset_get_object demo_dataset_versions_get(2) i st(2)
    by (simp add: query_def Let_def) (simp add: demo_store_def)
  from query_requires_ready [of demo_store demo_dataset_request 20 "Some 3" id "Some ''SELECT 1''"]
    demo_dataset_get_object demo_dataset_versions_get(1) i st(1) ok n
  show ?thesis by simp
qed

section \<open>Deleting a dataset version\<close>

text \<open>
  Claim C4. For a dataset the request reaches and a version of it that exists:
  when it is the dataset's only version, or its number is the dataset's
  \<open>current_version\<close>, \<open>delete_version\<close> answers 400 with an error body (the code's
  conflict) and the store is unchanged; otherwise it answers 204, the version rows
  left are those with another id, and the datasets, \<open>current_version\<close> included, are as
  before.
\<close>

theorem delete_version_guard:
  assumes "dataset_get_object s rq pk = Some d"
    and "dataset_versions_get s (d_id d) (int n) = Some v"
  shows "(length (versions_of s (d_id d)) = 1 \<or> dv_version_number v = d_current_version d \<longrightarrow>
            fst (delete_version s rq pk n) = s \<and>
            status (snd (delete_version s rq pk n)) = HTTP_400_BAD_REQUEST \<and>
            (\<exists>msg. body (snd (delete_version s rq pk n)) = Error msg)) \<and>
         (\<not> (length (versions_of s (d_id d)) = 1 \<or> dv_version_number v = d_current_version d) \<longrightarrow>
            delete_version s rq pk n = (delete_dataset_version s v, Response HTTP_204_NO_CONTENT NoContent) \<and>
            dataset_versions (delete_dataset_version s v) =
              filter (\<lambda>w. dv_id w \<noteq> dv_id v) (dataset_versions s) \<and>
            datasets (delete_dataset_version s v) = datasets s)"
  using assms by (auto simp: delete_version_def delete_dataset_version_def)

lemma single_dataset_get_object:
  "dataset_get_object single_version_store demo_dataset_request 20 = Some demo_dataset"
  by (simp add: dataset_get_object_def dataset_get_queryset_def user_projects_def demo_store_def
      demo_dataset_request_def demo_dataset_def single_version_store_def)

lemma single_dataset_versions_get:
  "dataset_versions_get single_version_store 20 1 = Some (demo_dataset_version 21 1 VReady)"
  by (simp add: dataset_versions_get_def versions_of_def single_version_store_def demo_dataset_version_def)

theorem delete_version_guard_witness:
  "dataset_get_object demo_store demo_dataset_request 20 = Some demo_dataset \<and>
   dataset_versions_get demo_store (d_id demo_dataset) (int 2) = Some (demo_dataset_version 22 2 VReady) \<and>
   dv_version_number (demo_dataset_version 22 2 VReady) = d_current_version demo_dataset \<and>
   fst (delete_version demo_store demo_dataset_request 20 2) = demo_store \<and>
   status (snd (delete_version demo_store demo_dataset_request 20 2)) = HTTP_400_BAD_REQUEST \<and>
   length (versions_of single_version_store (d_id demo_dataset)) = 1 \<and>
   fst (delete_version single_version_store demo_dataset_request 20 1) = single_version_store \<and>
   status (snd (delete_version single_version_store demo_dataset_request 20 1)) = HTTP_400_BAD_REQUEST \<and>
   length (versions_of demo_store (d_id demo_dataset)) = 3 \<and>
   dv_version_number (demo_dataset_version 21 1 VReady) \<noteq> d_current_version demo_dataset \<and>
   snd (delete_version demo_store demo_dataset_request 20 1) = Response HTTP_204_NO_CONTENT NoContent \<and>
   dataset_versions (fst (delete_version demo_store demo_dataset_request 20 1)) =
     [demo_dataset_version 23 3 Creating, demo_dataset_version 22 2 VReady] \<and>
   datasets (fst (delete_version demo_store demo_dataset_request 20 1)) = datasets demo_store"
proof -
  have i: "d_id demo_dataset = 20" "d_current_version demo_dataset = 2" by (simp_all add: demo_dataset_def)
  have n: "dv_version_number (demo_dataset_version 22 2 VReady) = 2"
      "dv_version_number (demo_dataset_version 21 1 VReady) = 1"
    by (simp_all add: demo_dataset_version_def)
  have l: "length (versions_of single_version_store 20) = 1" "length (versions_of demo_store 20) = 3"
    by (simp_all add: versions_of_def single_version_store_def demo_store_def demo_dataset_version_def)
  have f: "filter (\<lambda>w. dv_id w \<noteq> dv_id (demo_dataset_version 21 1 VReady)) (dataset_versions demo_store) =
      [demo_dataset_version 23 3 Creating, demo_dataset_version 22 2 VReady]"
    by (simp add: demo_store_def demo_dataset_version_def)
  have g2: "dataset_versions_get demo_store (d_id demo_dataset) (int 2) = Some (demo_dataset_version 22 2 VReady)"
    using demo_dataset_versions_get(2) i by simp
  have g1: "dataset_versions_get demo_store (d_id demo_dataset) (int 1) = Some (demo_dataset_version 21 1 VReady)"
    using demo_dataset_versions_get(3) i by simp
  have g0: "dataset_versions_get single_version_store (d_id demo_dataset) (int 1) = Some (demo_dataset_version 21 1 VReady)"
    using single_dataset_versions_get i by simp
  note a = delete_version_guard [OF demo_dataset_get_object g2]
  note b = delete_version_guard [OF demo_dataset_get_object g1]
  note c = delete_version_guard [OF single_dataset_get_object g0]
  from a b c i n l f g2 demo_dataset_get_object show ?thesis by simp
qed

section \<open>Versions of a pipeline's config\<close>

lemma set_attrs_fixed [simp]:
  "p_id (set_attrs inst d) = p_id inst"
  "p_current_version (set_attrs inst d) = p_current_version inst"
  "p_config (set_attrs inst d) = (case new_config d of None \<Rightarrow> p_config inst | Some c \<Rightarrow> c)"
  by (simp_all add: set_attrs_def)

lemma save_pipeline_versions [simp]:
  "versions (save_pipeline s p) = versions s" "next_id (save_pipeline s p) = next_id s"
  by (simp_all add: save_pipeline_def)

lemma serializer_update_unchanged:
  assumes "\<not> config_changed inst d"
  shows "\<exists>s' inst'. serializer_update s user inst d = Inr (s', inst') \<and>
           versions s' = versions s \<and> p_id inst' = p_id inst \<and>
           p_current_version inst' = p_current_version inst \<and>
           p_config inst' = (case new_config d of None \<Rightarrow> p_config inst | Some c \<Rightarrow> c)"
  using assms by (simp add: serializer_update_def Let_def)

lemma serializer_update_changed:
  assumes "config_changed inst d" and "versions_below s inst"
  shows "\<exists>s' inst' v c. serializer_update s user inst d = Inr (s', inst') \<and>
           new_config d = Some c \<and>
           versions s' = v # versions s \<and> pv_pipeline v = p_id inst \<and>
           pv_version_number v = p_current_version inst + 1 \<and>
           pv_config_snapshot v = c \<and> p_id inst' = p_id inst \<and>
           p_current_version inst' = p_current_version inst + 1 \<and>
           p_config inst' = c"
proof -
  from assms(1) obtain c where c: "new_config d = Some c"
    by (auto simp: config_changed_def split: option.splits)
  have "\<not> list_ex (\<lambda>v. pv_pipeline v = p_id inst \<and>
           pv_version_number v = p_current_version inst + 1) (versions s)"
    using assms(2) by (auto simp: versions_below_def list_all_iff list_ex_iff)
  with assms(1) c show ?thesis
    by (simp add: serializer_update_def Let_def)
qed

lemma serializer_update_below:
  assumes "versions_below s inst" and "serializer_update s user inst d = Inr (s', inst')"
  shows "versions_below s' inst'"
proof (cases "config_changed inst d")
  case True
  from serializer_update_changed [OF True assms(1), of user] assms(2)
  show ?thesis using assms(1) by (auto simp: versions_below_def list_all_iff)
next
  case False
  from serializer_update_unchanged [OF False, of s user] assms(2)
  show ?thesis using assms(1) by (auto simp: versions_below_def list_all_iff)
qed


lemma upt_shift: "map (\<lambda>k. c + int k) [Suc a..<Suc b] = map (\<lambda>k. c + 1 + int k) [a..<b]"
proof -
  have "[Suc a..<Suc b] = map Suc [a..<b]" by (simp add: map_Suc_upt)
  then show ?thesis by (simp add: comp_def add.assoc)
qed

lemma update_all_versions:
  assumes "versions_below s inst"
  shows "\<exists>s' inst' new. update_all s user inst ds = Inr (s', inst') \<and>
      versions s' = new @ versions s \<and>
      length new = changes (p_config inst) ds \<and>
      map pv_version_number new =
        rev (map (\<lambda>k. p_current_version inst + int k) [1..<Suc (length new)]) \<and>
      list_all (\<lambda>v. pv_pipeline v = p_id inst) new \<and>
      p_id inst' = p_id inst \<and>
      p_current_version inst' = p_current_version inst + int (length new)"
  using assms
proof (induction ds arbitrary: s inst)
  case Nil
  then show ?case by simp
next
  case (Cons d ds)
  show ?case
  proof (cases "config_changed inst d")
    case False
    from serializer_update_unchanged [OF False, of s user] obtain s1 i1 where
      u: "serializer_update s user inst d = Inr (s1, i1)" and
      v: "versions s1 = versions s" and
      i: "p_id i1 = p_id inst" "p_current_version i1 = p_current_version inst" and
      c: "p_config i1 = (case new_config d of None \<Rightarrow> p_config inst | Some c \<Rightarrow> c)"
      by blast
    have below: "versions_below s1 i1" by (rule serializer_update_below [OF Cons.prems u])
    from Cons.IH [OF below] obtain s' inst' new where
      r: "update_all s1 user i1 ds = Inr (s', inst')"
         "versions s' = new @ versions s1"
         "length new = changes (p_config i1) ds"
         "map pv_version_number new =
            rev (map (\<lambda>k. p_current_version i1 + int k) [1..<Suc (length new)])"
         "list_all (\<lambda>v. pv_pipeline v = p_id i1) new"
         "p_id inst' = p_id i1"
         "p_current_version inst' = p_current_version i1 + int (length new)"
      by blast
    have ch: "changes (p_config inst) (d # ds) = changes (p_config i1) ds"
      using False c by (auto simp: config_changed_def split: option.splits)
    show ?thesis
      apply (rule exI [of _ s'], rule exI [of _ inst'], rule exI [of _ new])
      using u r v i ch by simp
  next
    case True
    from serializer_update_changed [OF True Cons.prems, of user] obtain s1 i1 v c where
      u: "serializer_update s user inst d = Inr (s1, i1)" and
      nc: "new_config d = Some c" and
      v: "versions s1 = v # versions s" "pv_pipeline v = p_id inst"
         "pv_version_number v = p_current_version inst + 1" and
      i: "p_id i1 = p_id inst" "p_current_version i1 = p_current_version inst + 1" and
      c: "p_config i1 = c"
      by blast
    have below: "versions_below s1 i1" by (rule serializer_update_below [OF Cons.prems u])
    from Cons.IH [OF below] obtain s' inst' new where
      r: "update_all s1 user i1 ds = Inr (s', inst')"
         "versions s' = new @ versions s1"
         "length new = changes (p_config i1) ds"
         "map pv_version_number new =
            rev (map (\<lambda>k. p_current_version i1 + int k) [1..<Suc (length new)])"
         "list_all (\<lambda>v. pv_pipeline v = p_id i1) new"
         "p_id inst' = p_id i1"
         "p_current_version inst' = p_current_version i1 + int (length new)"
      by blast
    have ch: "changes (p_config inst) (d # ds) = Suc (changes (p_config i1) ds)"
      using True nc c by (auto simp: config_changed_def)
    have nums: "map pv_version_number (new @ [v]) =
        rev (map (\<lambda>k. p_current_version inst + int k) [1..<Suc (length (new @ [v]))])"
    proof -
      have "[1..<Suc (Suc (length new))] = 1 # [Suc 1..<Suc (Suc (length new))]"
        by (subst upt_rec) simp
      then have "map (\<lambda>k. p_current_version inst + int k) [1..<Suc (Suc (length new))] =
          (p_current_version inst + 1) #
          map (\<lambda>k. p_current_version inst + 1 + int k) [1..<Suc (length new)]"
        using upt_shift [of "p_current_version inst" 1 "Suc (length new)"] by simp
      then show ?thesis using r(4) i(2) v(3) by simp
    qed
    show ?thesis
      apply (rule exI [of _ s'], rule exI [of _ inst'], rule exI [of _ "new @ [v]"])
      using u r v i ch nums by simp
  qed
qed

text \<open>
  What one \<open>update\<close> and a sequence of them do to the versions, in the terms of the
  test the code makes (\<open>config_changed\<close>, Python's \<open>!=\<close>). When the data carry no
  config, or one that \<open>!=\<close> does not tell from the pipeline's current config, no
  version row is added and \<open>current_version\<close> stays. When \<open>!=\<close> tells them apart,
  and no version of the pipeline is numbered above \<open>current_version\<close> (as after
  \<open>create\<close> and after every \<open>update\<close>), exactly one version row is added, of this
  pipeline, numbered \<open>current_version + 1\<close>, holding the new config, and
  \<open>current_version\<close> advances by 1. A sequence of updates adds one version row per
  call for which \<open>config_changed\<close> holds, numbered consecutively.
\<close>

theorem update_versions_by_config_change:
  "(\<not> config_changed inst d \<longrightarrow>
      (\<exists>s' inst'. serializer_update s user inst d = Inr (s', inst') \<and>
         versions s' = versions s \<and>
         p_current_version inst' = p_current_version inst)) \<and>
   (config_changed inst d \<and> versions_below s inst \<longrightarrow>
      (\<exists>s' inst' v c. serializer_update s user inst d = Inr (s', inst') \<and>
         new_config d = Some c \<and> versions s' = v # versions s \<and>
         pv_pipeline v = p_id inst \<and>
         pv_version_number v = p_current_version inst + 1 \<and>
         pv_config_snapshot v = c \<and>
         p_current_version inst' = p_current_version inst + 1 \<and>
         versions_below s' inst')) \<and>
   (versions_below s inst \<longrightarrow>
      (\<exists>s' inst' new. update_all s user inst ds = Inr (s', inst') \<and>
         versions s' = new @ versions s \<and>
         length new = changes (p_config inst) ds \<and>
         map pv_version_number new =
           rev (map (\<lambda>k. p_current_version inst + int k) [1..<Suc (length new)]) \<and>
         list_all (\<lambda>v. pv_pipeline v = p_id inst) new \<and>
         p_current_version inst' = p_current_version inst + int (length new)))"
proof (intro conjI impI)
  assume "\<not> config_changed inst d"
  from serializer_update_unchanged [OF this, of s user]
  show "\<exists>s' inst'. serializer_update s user inst d = Inr (s', inst') \<and>
         versions s' = versions s \<and> p_current_version inst' = p_current_version inst"
    by blast
next
  assume a: "config_changed inst d \<and> versions_below s inst"
  then have ch: "config_changed inst d" and below: "versions_below s inst" by simp_all
  from serializer_update_changed [OF ch below, of user] obtain s' inst' v c where
    r: "serializer_update s user inst d = Inr (s', inst')" "new_config d = Some c"
       "versions s' = v # versions s" "pv_pipeline v = p_id inst"
       "pv_version_number v = p_current_version inst + 1" "pv_config_snapshot v = c"
       "p_current_version inst' = p_current_version inst + 1"
    by blast
  have "versions_below s' inst'" by (rule serializer_update_below [OF below r(1)])
  with r show "\<exists>s' inst' v c. serializer_update s user inst d = Inr (s', inst') \<and>
         new_config d = Some c \<and> versions s' = v # versions s \<and>
         pv_pipeline v = p_id inst \<and>
         pv_version_number v = p_current_version inst + 1 \<and>
         pv_config_snapshot v = c \<and>
         p_current_version inst' = p_current_version inst + 1 \<and>
         versions_below s' inst'"
    by blast
next
  assume "versions_below s inst"
  from update_all_versions [OF this, of user ds]
  show "\<exists>s' inst' new. update_all s user inst ds = Inr (s', inst') \<and>
         versions s' = new @ versions s \<and>
         length new = changes (p_config inst) ds \<and>
         map pv_version_number new =
           rev (map (\<lambda>k. p_current_version inst + int k) [1..<Suc (length new)]) \<and>
         list_all (\<lambda>v. pv_pipeline v = p_id inst) new \<and>
         p_current_version inst' = p_current_version inst + int (length new)"
    by blast
qed


theorem update_versions_by_config_change_witness:
  "versions_below demo_store demo_pipeline \<and>
   \<not> config_changed demo_pipeline (config_update (Some demo_config)) \<and>
   config_changed demo_pipeline (config_update (Some (JObj []))) \<and>
   (\<exists>s' inst'. serializer_update demo_store 7 demo_pipeline (config_update (Some demo_config)) = Inr (s', inst') \<and>
      versions s' = versions demo_store \<and> p_current_version inst' = 1) \<and>
   (\<exists>s' inst' v. serializer_update demo_store 7 demo_pipeline (config_update (Some (JObj []))) = Inr (s', inst') \<and>
      versions s' = v # versions demo_store \<and> pv_version_number v = 2 \<and>
      pv_config_snapshot v = JObj [] \<and> p_current_version inst' = 2) \<and>
   (\<exists>s' inst' new. update_all demo_store 7 demo_pipeline demo_updates = Inr (s', inst') \<and>
      versions s' = new @ versions demo_store \<and>
      map pv_version_number new = [3, 2] \<and> p_current_version inst' = 3)"
proof -
  have below: "versions_below demo_store demo_pipeline"
    by (simp add: versions_below_def demo_store_def demo_pipeline_def demo_version_def)
  have same: "\<not> config_changed demo_pipeline (config_update (Some demo_config))"
    by (simp add: config_changed_def config_update_def demo_pipeline_def demo_config_def)
  have diff: "config_changed demo_pipeline (config_update (Some (JObj [])))"
    by (simp add: config_changed_def config_update_def demo_pipeline_def demo_config_def)
  have cv: "p_current_version demo_pipeline = 1" "p_config demo_pipeline = demo_config"
    by (simp_all add: demo_pipeline_def)
  have ch: "changes demo_config demo_updates = 2"
    by (simp add: demo_updates_def config_update_def demo_config_def)
  have nc: "new_config (config_update (Some (JObj []))) = Some (JObj [])"
    by (simp add: config_update_def)
  note a = update_versions_by_config_change
    [of demo_pipeline "config_update (Some demo_config)" demo_store 7 demo_updates]
  note b = update_versions_by_config_change
    [of demo_pipeline "config_update (Some (JObj []))" demo_store 7 demo_updates]
  from a same cv have one: "\<exists>s' inst'. serializer_update demo_store 7 demo_pipeline (config_update (Some demo_config)) = Inr (s', inst') \<and>
      versions s' = versions demo_store \<and> p_current_version inst' = 1"
    by simp
  from b diff below cv nc have two: "\<exists>s' inst' v. serializer_update demo_store 7 demo_pipeline (config_update (Some (JObj []))) = Inr (s', inst') \<and>
      versions s' = v # versions demo_store \<and> pv_version_number v = 2 \<and>
      pv_config_snapshot v = JObj [] \<and> p_current_version inst' = 2"
    by fastforce
  from a below obtain s' inst' new where
    r: "update_all demo_store 7 demo_pipeline demo_updates = Inr (s', inst')"
       "versions s' = new @ versions demo_store"
       "length new = changes (p_config demo_pipeline) demo_updates"
       "map pv_version_number new =
           rev (map (\<lambda>k. p_current_version demo_pipeline + int k) [1..<Suc (length new)])"
       "p_current_version inst' = p_current_version demo_pipeline + int (length new)"
    by blast
  have len: "length new = 2" using r(3) cv ch by simp
  have "[1..<Suc 2] = [1, 2]" by (simp add: upt_rec)
  with r(4) len cv have nums: "map pv_version_number new = [3, 2]" by simp
  have cv3: "p_current_version inst' = 3" using r(5) len cv by simp
  have three: "\<exists>s' inst' new. update_all demo_store 7 demo_pipeline demo_updates = Inr (s', inst') \<and>
      versions s' = new @ versions demo_store \<and>
      map pv_version_number new = [3, 2] \<and> p_current_version inst' = 3"
    apply (rule exI [of _ s'], rule exI [of _ inst'], rule exI [of _ new])
    using r(1) r(2) nums cv3 by simp
  from below same diff one two three show ?thesis by blast
qed

text \<open>
  Claim C2 (a call whose config differs from the current one creates exactly one new
  version and advances \<open>current_version\<close>) fails on the code. The pipeline's config is
  \<open>{"n": 1}\<close> and the update carries \<open>{"n": true}\<close>, a different config. Python's
  \<open>!=\<close> does not tell \<open>True\<close> from \<open>1\<close>, so \<open>config_changed\<close> is false:
  \<open>update\<close> stores the new config in the pipeline, adds no version row and leaves
  \<open>current_version\<close> at 1.
\<close>

theorem update_true_for_one_adds_no_version:
  "p_config int_pipeline = int_config \<and> bool_config \<noteq> int_config \<and>
   \<not> same_content bool_config int_config \<and>
   \<not> config_changed int_pipeline (config_update (Some bool_config)) \<and>
   serializer_update int_store 7 int_pipeline (config_update (Some bool_config)) =
     Inr (int_store\<lparr>pipelines := [int_pipeline\<lparr>p_config := bool_config\<rparr>]\<rparr>,
          int_pipeline\<lparr>p_config := bool_config\<rparr>) \<and>
   versions (int_store\<lparr>pipelines := [int_pipeline\<lparr>p_config := bool_config\<rparr>]\<rparr>) =
     [demo_version\<lparr>pv_config_snapshot := int_config\<rparr>] \<and>
   p_current_version (int_pipeline\<lparr>p_config := bool_config\<rparr>) = 1"
proof -
  have c: "\<not> config_changed int_pipeline (config_update (Some bool_config))"
    by (simp add: config_changed_def config_update_def int_pipeline_def int_config_def bool_config_def)
  have u: "serializer_update int_store 7 int_pipeline (config_update (Some bool_config)) =
     Inr (int_store\<lparr>pipelines := [int_pipeline\<lparr>p_config := bool_config\<rparr>]\<rparr>,
          int_pipeline\<lparr>p_config := bool_config\<rparr>)"
    using c
    by (simp add: serializer_update_def Let_def)
       (simp add: set_attrs_def config_update_def save_pipeline_def int_store_def int_pipeline_def
          demo_pipeline_def)
  have r: "p_config int_pipeline = int_config" "bool_config \<noteq> int_config"
      "\<not> same_content bool_config int_config"
      "versions (int_store\<lparr>pipelines := [int_pipeline\<lparr>p_config := bool_config\<rparr>]\<rparr>) =
         [demo_version\<lparr>pv_config_snapshot := int_config\<rparr>]"
      "p_current_version (int_pipeline\<lparr>p_config := bool_config\<rparr>) = 1"
    by (simp_all add: int_pipeline_def int_config_def bool_config_def int_store_def demo_pipeline_def)
  from r c u show ?thesis by blast
qed

section \<open>Canonical JSON text\<close>

lemma map_insort_key_fst:
  assumes "\<And>y. fst (h y) = fst y"
  shows "map h (insort_key fst x xs) = insort_key fst (h x) (map h xs)"
  using assms by (induction xs) auto

lemma map_sort_key_fst:
  assumes "\<And>y. fst (h y) = fst y"
  shows "map h (sort_key fst xs) = sort_key fst (map h xs)"
  using assms by (induction xs) (auto simp: map_insort_key_fst)

lemma sorted_by_key_unique:
  fixes xs ys :: "(string \<times> 'a) list"
  assumes "distinct (map fst xs)" "distinct (map fst ys)" "set xs = set ys"
  shows "sort_key fst xs = sort_key fst ys"
proof (rule map_sorted_distinct_set_unique [where f = fst])
  show "inj_on fst (set (sort_key fst xs) \<union> set (sort_key fst ys))"
    using assms by (simp add: distinct_map)
  show "distinct (map fst (sort_key fst xs))"
    using assms(1) by (simp add: distinct_map)
  show "distinct (map fst (sort_key fst ys))"
    using assms(2) by (simp add: distinct_map)
qed (use assms in simp_all)

lemma same_content_list:
  assumes "same_content (JList xs) (JList ys)"
    and "\<And>x y. x \<in> set xs \<Longrightarrow> y \<in> set ys \<Longrightarrow> same_content x y \<Longrightarrow> f x = f y"
  shows "map f xs = map f ys"
  using assms
proof (induction xs arbitrary: ys)
  case Nil
  then show ?case by simp
next
  case (Cons x xs)
  then show ?case by (cases ys) auto
qed

lemma same_content_obj:
  fixes f :: "json \<Rightarrow> 'b" and kvs kws :: "(string \<times> json) list"
  assumes len: "length kvs = length kws"
    and all: "list_all (\<lambda>kv. list_ex (\<lambda>kw. fst kw = fst kv \<and> same_content (snd kv) (snd kw)) kws) kvs"
    and dv: "distinct (map fst kvs)" and dw: "distinct (map fst kws)"
    and ih: "\<And>kv kw. kv \<in> set kvs \<Longrightarrow> kw \<in> set kws \<Longrightarrow> same_content (snd kv) (snd kw)
               \<Longrightarrow> f (snd kv) = f (snd kw)"
  shows "map (\<lambda>kv. (fst kv, f (snd kv))) (sort_key fst kvs) =
         map (\<lambda>kv. (fst kv, f (snd kv))) (sort_key fst kws)"
proof -
  define h where "h = (\<lambda>kv :: string \<times> json. (fst kv, f (snd kv)))"
  have fst_h: "\<And>y. fst (h y) = fst y" by (simp add: h_def)
  have partner: "\<exists>kw\<in>set kws. fst kw = fst kv \<and> same_content (snd kv) (snd kw)"
    if "kv \<in> set kvs" for kv
    using all that unfolding list_all_iff list_ex_iff by blast
  have h_eq: "h kw = h kv"
    if "kv \<in> set kvs" "kw \<in> set kws" "fst kw = fst kv" "same_content (snd kv) (snd kw)" for kv kw
    using ih [OF that(1) that(2) that(4)] that(3) by (simp add: h_def)
  have sub: "h ` set kvs \<subseteq> h ` set kws"
  proof
    fix p assume "p \<in> h ` set kvs"
    then obtain kv where kv: "kv \<in> set kvs" "p = h kv" by blast
    from partner [OF kv(1)] obtain kw
      where kw: "kw \<in> set kws" "fst kw = fst kv" "same_content (snd kv) (snd kw)" by blast
    have "h kw = h kv" by (rule h_eq [OF kv(1) kw])
    then show "p \<in> h ` set kws" using kv(2) kw(1) by (simp add: image_iff) metis
  qed
  have keys_sub: "fst ` set kvs \<subseteq> fst ` set kws"
  proof
    fix k assume "k \<in> fst ` set kvs"
    then obtain kv where kv: "kv \<in> set kvs" "k = fst kv" by blast
    from partner [OF kv(1)] obtain kw where "kw \<in> set kws" "fst kw = fst kv" by blast
    then show "k \<in> fst ` set kws" using kv(2) by (simp add: image_iff) metis
  qed
  have "card (fst ` set kvs) = length kvs"
    using dv distinct_card [of "map fst kvs"] by simp
  moreover have "card (fst ` set kws) = length kws"
    using dw distinct_card [of "map fst kws"] by simp
  ultimately have "card (fst ` set kws) \<le> card (fst ` set kvs)" using len by simp
  with keys_sub have keys: "fst ` set kvs = fst ` set kws"
    by (intro card_seteq) simp_all
  have sup: "h ` set kws \<subseteq> h ` set kvs"
  proof
    fix p assume "p \<in> h ` set kws"
    then obtain kw where kw: "kw \<in> set kws" "p = h kw" by blast
    then have "fst kw \<in> fst ` set kvs" using keys by simp
    then obtain kv where kv: "kv \<in> set kvs" "fst kv = fst kw" by (auto simp: image_iff)
    from partner [OF kv(1)] obtain kw'
      where kw': "kw' \<in> set kws" "fst kw' = fst kv" "same_content (snd kv) (snd kw')" by blast
    have "inj_on fst (set kws)" using dw by (simp add: distinct_map)
    then have "kw' = kw" using kw(1) kw'(1) kw'(2) kv(2) by (simp add: inj_on_def)
    with kw' have "h kw = h kv" using h_eq [OF kv(1) kw(1)] by simp
    then show "p \<in> h ` set kvs" using kv(1) kw(2) by (simp add: image_iff) metis
  qed
  have "sort_key fst (map h kvs) = sort_key fst (map h kws)"
  proof (rule sorted_by_key_unique)
    show "distinct (map fst (map h kvs))" using dv by (simp add: comp_def fst_h)
    show "distinct (map fst (map h kws))" using dw by (simp add: comp_def fst_h)
    show "set (map h kvs) = set (map h kws)" using sub sup by simp
  qed
  then have "map h (sort_key fst kvs) = map h (sort_key fst kws)"
    by (simp add: map_sort_key_fst [OF fst_h])
  then show ?thesis by (simp add: h_def)
qed

lemma dumps_same_content:
  "wf_json a \<Longrightarrow> wf_json b \<Longrightarrow> same_content a b \<Longrightarrow> dumps a = dumps b"
proof (induction a arbitrary: b)
  case JNull
  then show ?case by (cases b) simp_all
next
  case (JBool x)
  then show ?case by (cases b) simp_all
next
  case (JInt x)
  then show ?case by (cases b) simp_all
next
  case (JStr x)
  then show ?case by (cases b) simp_all
next
  case (JList xs)
  from JList.prems(3) obtain ys where b: "b = JList ys"
    by (cases b; cases xs) simp_all
  have "map dumps xs = map dumps ys"
  proof (rule same_content_list)
    show "same_content (JList xs) (JList ys)" using JList.prems b by simp
  next
    fix x y assume xy: "x \<in> set xs" "y \<in> set ys" "same_content x y"
    have "wf_json x" using JList.prems(1) xy(1) by (simp add: list_all_iff)
    moreover have "wf_json y" using JList.prems(2) xy(2) b by (simp add: list_all_iff)
    ultimately show "dumps x = dumps y" using JList.IH [OF xy(1)] xy(3) by blast
  qed
  with b show ?case by simp
next
  case (JObj kvs)
  from JObj.prems(3) obtain kws where b: "b = JObj kws" by (cases b) simp_all
  have "map (\<lambda>kv. (fst kv, dumps (snd kv))) (sort_key fst kvs) =
        map (\<lambda>kv. (fst kv, dumps (snd kv))) (sort_key fst kws)"
  proof (rule same_content_obj)
    show "length kvs = length kws" using JObj.prems(3) b by simp
    show "list_all (\<lambda>kv. list_ex (\<lambda>kw. fst kw = fst kv \<and> same_content (snd kv) (snd kw)) kws) kvs"
      using JObj.prems(3) b by simp
    show "distinct (map fst kvs)" using JObj.prems(1) by simp
    show "distinct (map fst kws)" using JObj.prems(2) b by simp
  next
    fix kv kw assume kk: "kv \<in> set kvs" "kw \<in> set kws" "same_content (snd kv) (snd kw)"
    have w1: "wf_json (snd kv)" using JObj.prems(1) kk(1) by (simp add: list_all_iff)
    have w2: "wf_json (snd kw)" using JObj.prems(2) kk(2) b by (simp add: list_all_iff)
    have "snd kv \<in> Basic_BNFs.snds kv" by (cases kv) simp
    from JObj.IH [OF kk(1) this w1 w2 kk(3)] show "dumps (snd kv) = dumps (snd kw)" .
  qed
  then have "map (\<lambda>p. encode_str (fst p) @ '': '' @ snd p)
               (map (\<lambda>kv. (fst kv, dumps (snd kv))) (sort_key fst kvs)) =
             map (\<lambda>p. encode_str (fst p) @ '': '' @ snd p)
               (map (\<lambda>kv. (fst kv, dumps (snd kv))) (sort_key fst kws))"
    by simp
  then have "map (\<lambda>kv. encode_str (fst kv) @ '': '' @ dumps (snd kv)) (sort_key fst kvs) =
             map (\<lambda>kv. encode_str (fst kv) @ '': '' @ dumps (snd kv)) (sort_key fst kws)"
    by (simp add: comp_def)
  then show ?case using b by simp
qed

section \<open>The schema fingerprint\<close>

lemma dataset_version_save_hash:
  assumes "dataset_version_save H v = Inr v'"
  shows "dv_schema_hash v' =
           (if truthy (dv_schema v) \<and> dv_schema_hash v = []
            then calculate_schema_hash H (dv_schema v) else dv_schema_hash v)"
    and "dv_schema v' = dv_schema v"
  using assms
  by (auto simp: dataset_version_save_def Let_def split: if_splits sum.splits bool.splits)

text \<open>
  Claim C5. The fingerprint is the hash of \<open>json.dumps(schema, sort_keys=True)\<close>, so
  two schemas with the same content, whatever the order of the keys in their dicts,
  have the same fingerprint, for every hash function. \<open>save\<close> sets the fingerprint
  only when the schema is not empty and the stored fingerprint is empty, and leaves
  it as it is otherwise: once a save has set it, a later save keeps it, even when the
  schema has been replaced in between.
\<close>

theorem schema_hash_of_canonical_schema:
  "(wf_json a \<and> wf_json b \<and> same_content a b \<longrightarrow>
      calculate_schema_hash sha256_hexdigest a = calculate_schema_hash sha256_hexdigest b) \<and>
   (dataset_version_save sha256_hexdigest v = Inr v' \<longrightarrow>
      dv_schema_hash v' =
        (if truthy (dv_schema v) \<and> dv_schema_hash v = []
         then calculate_schema_hash sha256_hexdigest (dv_schema v) else dv_schema_hash v)) \<and>
   (dataset_version_save sha256_hexdigest v = Inr v' \<and> dv_schema_hash v' \<noteq> [] \<and>
    dataset_version_save sha256_hexdigest (v'\<lparr>dv_schema := a\<rparr>) = Inr v'' \<longrightarrow>
      dv_schema_hash v'' = dv_schema_hash v')"
proof (intro conjI impI)
  assume "wf_json a \<and> wf_json b \<and> same_content a b"
  then have "dumps a = dumps b" using dumps_same_content by blast
  then show "calculate_schema_hash sha256_hexdigest a = calculate_schema_hash sha256_hexdigest b"
    by (simp add: calculate_schema_hash_def)
next
  assume "dataset_version_save sha256_hexdigest v = Inr v'"
  then show "dv_schema_hash v' =
        (if truthy (dv_schema v) \<and> dv_schema_hash v = []
         then calculate_schema_hash sha256_hexdigest (dv_schema v) else dv_schema_hash v)"
    by (rule dataset_version_save_hash)
next
  assume a: "dataset_version_save sha256_hexdigest v = Inr v' \<and> dv_schema_hash v' \<noteq> [] \<and>
    dataset_version_save sha256_hexdigest (v'\<lparr>dv_schema := a\<rparr>) = Inr v''"
  then have "dataset_version_save sha256_hexdigest (v'\<lparr>dv_schema := a\<rparr>) = Inr v''" by simp
  from dataset_version_save_hash(1) [OF this] a show "dv_schema_hash v'' = dv_schema_hash v'"
    by simp
qed

lemma demo_schema_wf:
  "wf_json demo_schema" "wf_json demo_schema_reordered"
  "same_content demo_schema demo_schema_reordered"
  by (simp_all add: demo_schema_def demo_schema_reordered_def)

lemma demo_save:
  "dataset_version_save id (demo_dataset_version 21 1 VReady) = Inr saved_version"
  by (simp add: dataset_version_save_def saved_version_def demo_dataset_version_def demo_schema_def Let_def)

lemma saved_version_hash: "dv_schema_hash saved_version \<noteq> []"
  by (simp add: saved_version_def calculate_schema_hash_def demo_schema_def)

lemma demo_save_again:
  "dataset_version_save id (saved_version\<lparr>dv_schema := empty_columns_schema\<rparr>) =
     Inr (saved_version\<lparr>dv_schema := empty_columns_schema, dv_column_count := 0\<rparr>)"
  using saved_version_hash
  by (simp add: dataset_version_save_def empty_columns_schema_def Let_def)

theorem schema_hash_of_canonical_schema_witness:
  "wf_json demo_schema \<and> wf_json demo_schema_reordered \<and>
   same_content demo_schema demo_schema_reordered \<and>
   demo_schema \<noteq> demo_schema_reordered \<and>
   calculate_schema_hash id demo_schema = calculate_schema_hash id demo_schema_reordered \<and>
   dataset_version_save id (demo_dataset_version 21 1 VReady) = Inr saved_version \<and>
   dv_schema_hash (demo_dataset_version 21 1 VReady) = [] \<and>
   dv_schema_hash saved_version = calculate_schema_hash id demo_schema \<and>
   dv_schema_hash saved_version \<noteq> [] \<and>
   dataset_version_save id (saved_version\<lparr>dv_schema := empty_columns_schema\<rparr>) =
     Inr (saved_version\<lparr>dv_schema := empty_columns_schema, dv_column_count := 0\<rparr>) \<and>
   dv_schema_hash (saved_version\<lparr>dv_schema := empty_columns_schema, dv_column_count := 0\<rparr>) =
     dv_schema_hash saved_version"
proof -
  have ne: "demo_schema \<noteq> demo_schema_reordered"
    by (simp add: demo_schema_def demo_schema_reordered_def)
  have h0: "dv_schema_hash (demo_dataset_version 21 1 VReady) = []"
       "dv_schema (demo_dataset_version 21 1 VReady) = demo_schema"
       "truthy demo_schema"
    by (simp_all add: demo_dataset_version_def demo_schema_def)
  note a = schema_hash_of_canonical_schema
    [of demo_schema demo_schema_reordered id "demo_dataset_version 21 1 VReady" saved_version
        "saved_version\<lparr>dv_schema := empty_columns_schema, dv_column_count := 0\<rparr>"]
  note b = schema_hash_of_canonical_schema
    [of empty_columns_schema demo_schema_reordered id "demo_dataset_version 21 1 VReady" saved_version
        "saved_version\<lparr>dv_schema := empty_columns_schema, dv_column_count := 0\<rparr>"]
  from a demo_schema_wf have e1: "calculate_schema_hash id demo_schema = calculate_schema_hash id demo_schema_reordered"
    by blast
  from a demo_save h0 have e2: "dv_schema_hash saved_version = calculate_schema_hash id demo_schema"
    by simp
  from b demo_save saved_version_hash demo_save_again
  have e3: "dv_schema_hash (saved_version\<lparr>dv_schema := empty_columns_schema, dv_column_count := 0\<rparr>) =
     dv_schema_hash saved_version"
    by blast
  from demo_schema_wf ne e1 demo_save h0(1) e2 saved_version_hash demo_save_again e3
  show ?thesis by blast
qed

section \<open>Lineage edges\<close>

text \<open>
  Claim C8, as amended. Creating a lineage edge is refused only when a foreign key points
  to no row; otherwise the edge is stored with its kind and its three upstream
  references exactly as given, however many of them are populated and whether or not
  one matches the kind. The kind and the references meet only when an edge is
  serialised: \<open>source_name\<close> is a name only if the reference the kind names is
  populated, and \<open>None\<close> whenever it is not.
\<close>

theorem lineage_edge_unvalidated:
  "(\<not> references_exist s d \<longrightarrow> lineage_create s d = Inl IntegrityError) \<and>
   (references_exist s d \<longrightarrow>
      (\<exists>edge s'. lineage_create s d = Inr (s', edge) \<and> lineage s' = edge # lineage s \<and>
         dl_dataset_version edge = ld_dataset_version d \<and>
         dl_source_type edge = ld_source_type d \<and>
         dl_source_data_source edge = ld_source_data_source d \<and>
         dl_source_pipeline edge = ld_source_pipeline d \<and>
         dl_source_dataset_version edge = ld_source_dataset_version d)) \<and>
   (matching_reference l = None \<longrightarrow> get_source_name s l = Inr None) \<and>
   (get_source_name s l = Inr (Some n) \<longrightarrow> matching_reference l \<noteq> None)"
  by (auto simp: lineage_create_def Let_def get_source_name_def matching_reference_def
      split: lineage_type.splits option.splits sum.splits if_splits)

lemma unmatched_references_exist: "references_exist demo_store unmatched_edge"
  by (simp add: references_exist_def unmatched_edge_def demo_store_def demo_dataset_version_def)

theorem lineage_edge_unvalidated_witness:
  "references_exist demo_store unmatched_edge \<and>
   (\<exists>edge s'. lineage_create demo_store unmatched_edge = Inr (s', edge) \<and>
      lineage s' = edge # lineage demo_store \<and> dl_source_type edge = LPipeline \<and>
      dl_source_data_source edge = None \<and> dl_source_pipeline edge = None \<and>
      dl_source_dataset_version edge = None) \<and>
   matching_reference unmatched_row = None \<and>
   get_source_name demo_store unmatched_row = Inr None \<and>
   get_source_name demo_store matched_row = Inr (Some ''orders'') \<and>
   matching_reference matched_row \<noteq> None"
proof -
  have u: "ld_source_type unmatched_edge = LPipeline" "ld_source_data_source unmatched_edge = None"
      "ld_source_pipeline unmatched_edge = None" "ld_source_dataset_version unmatched_edge = None"
    by (simp_all add: unmatched_edge_def)
  have m: "matching_reference unmatched_row = None"
    by (simp add: matching_reference_def unmatched_row_def)
  have g: "get_source_name demo_store matched_row = Inr (Some ''orders'')"
    by (simp add: get_source_name_def matched_row_def unmatched_row_def demo_store_def demo_pipeline_def)
  note a = lineage_edge_unvalidated [of demo_store unmatched_edge unmatched_row "''orders''"]
  note b = lineage_edge_unvalidated [of demo_store unmatched_edge matched_row "''orders''"]
  from a unmatched_references_exist u have c1: "\<exists>edge s'. lineage_create demo_store unmatched_edge = Inr (s', edge) \<and>
      lineage s' = edge # lineage demo_store \<and> dl_source_type edge = LPipeline \<and>
      dl_source_data_source edge = None \<and> dl_source_pipeline edge = None \<and>
      dl_source_dataset_version edge = None"
    by fastforce
  from a m have c2: "get_source_name demo_store unmatched_row = Inr None" by blast
  from b g have c3: "matching_reference matched_row \<noteq> None" by blast
  from unmatched_references_exist c1 m c2 g c3 show ?thesis by blast
qed

text \<open>
  Claim C8 as stated fails: the edge of kind pipeline with no upstream reference
  populated is stored as given, and reads back with \<open>source_name\<close> \<open>None\<close>.
\<close>

theorem unmatched_edge_accepted:
  "ld_source_type unmatched_edge = LPipeline \<and> ld_source_pipeline unmatched_edge = None \<and>
   lineage_create demo_store unmatched_edge =
     Inr (demo_store\<lparr>lineage := [unmatched_row], next_id := 31\<rparr>, unmatched_row) \<and>
   populated unmatched_row = 0 \<and>
   get_source_name (demo_store\<lparr>lineage := [unmatched_row], next_id := 31\<rparr>) unmatched_row = Inr None"
proof -
  have c: "lineage_create demo_store unmatched_edge =
     Inr (demo_store\<lparr>lineage := [unmatched_row], next_id := 31\<rparr>, unmatched_row)"
    using unmatched_references_exist
    by (simp add: lineage_create_def Let_def)
       (simp add: unmatched_edge_def unmatched_row_def demo_store_def)
  have g: "get_source_name (demo_store\<lparr>lineage := [unmatched_row], next_id := 31\<rparr>) unmatched_row = Inr None"
    by (simp add: get_source_name_def unmatched_row_def)
  have p: "populated unmatched_row = 0" by (simp add: populated_def unmatched_row_def)
  have u: "ld_source_type unmatched_edge = LPipeline" "ld_source_pipeline unmatched_edge = None"
    by (simp_all add: unmatched_edge_def)
  from u c p g show ?thesis by blast
qed

end
